theory Spec2Isabelle
  imports Complex_Main
begin

section \<open>Data model\<close>

text \<open>
  The User schema of \<^verbatim>\<open>models/User.js\<close>. The password path is declared
  \<^verbatim>\<open>select: false\<close>, so a loaded document may carry no password at all: the field is
  optional. Identifiers are the hexadecimal strings Mongoose exposes as \<^verbatim>\<open>id\<close>.
\<close>

record User =
  uid :: string
  name :: string
  email :: string
  password :: "string option"
  avatar :: string
  role :: string
  createdAt :: int
  resetPasswordToken :: "string option"
  resetPasswordExpire :: "int option"

text \<open>
  A Mongoose document in memory: the field values and the set of paths modified since the
  document was loaded, which is what \<^verbatim>\<open>isModified\<close> reads.
\<close>

record UserDoc =
  doc :: User
  modifiedPaths :: "string list"

definition isModified :: "UserDoc \<Rightarrow> string \<Rightarrow> bool" where
  "isModified d p = (p \<in> set (modifiedPaths d))"

text \<open>
  Modelled from the spec: \<^verbatim>\<open>models/Transaction.js\<close> is not among the sources. The
  record has the paths the routes read and write (\<^verbatim>\<open>user\<close>, \<^verbatim>\<open>type\<close>,
  \<^verbatim>\<open>category\<close>, \<^verbatim>\<open>amount\<close>, \<^verbatim>\<open>description\<close>, \<^verbatim>\<open>date\<close>) and the
  creation timestamp of the spec's data model. Dates are milliseconds since the epoch,
  amounts are rationals (only their order is used).
\<close>

record Transaction =
  tid :: string
  user :: string
  type :: string
  category :: string
  amount :: rat
  description :: string
  date :: int
  created :: int

section \<open>Responses\<close>

text \<open>
  The message texts of the source are Vietnamese sentences; each one is a constructor
  here, named after the place that sends it.
\<close>

datatype message =
    PleaseLogin            \<comment> \<open>auth.js line 23: no token presented\<close>
  | UserDoesNotExist       \<comment> \<open>auth.js line 37\<close>
  | TokenInvalidOrExpired  \<comment> \<open>auth.js line 45\<close>
  | ListFailed             \<comment> \<open>transactions.js line 95\<close>
  | TransactionNotFound    \<comment> \<open>transactions.js lines 114, 196, 236\<close>
  | GetFailed              \<comment> \<open>transactions.js line 125\<close>
  | UpdateSucceeded        \<comment> \<open>transactions.js line 211\<close>
  | UpdateFailed           \<comment> \<open>transactions.js line 217\<close>
  | DeleteSucceeded        \<comment> \<open>transactions.js line 244\<close>
  | DeleteFailed           \<comment> \<open>transactions.js line 249\<close>

text \<open>What the driver can throw inside a handler's \<^verbatim>\<open>try\<close> block.\<close>

datatype thrown = CastError | ValidationError | RegexError

datatype payload =
    NoData
  | FieldErrors "string list"
  | Diagnostic thrown
  | Doc Transaction
  | Listing nat nat int int "Transaction list"
    \<comment> \<open>count, total, page, pages, data\<close>

record response =
  status :: nat
  success :: bool
  message :: "message option"
  payload :: payload

definition failure :: "nat \<Rightarrow> message \<Rightarrow> response" where
  "failure code m = \<lparr>status = code, success = False, message = Some m, payload = NoData\<rparr>"

section \<open>JavaScript strings\<close>

text \<open>A string is truthy when it is defined and not empty.\<close>

definition truthy :: "string option \<Rightarrow> bool" where
  "truthy v = (case v of None \<Rightarrow> False | Some s \<Rightarrow> s \<noteq> [])"

definition startsWith :: "string \<Rightarrow> string \<Rightarrow> bool" where
  "startsWith s p = (take (length p) s = p)"

text \<open>
  \<^verbatim>\<open>s.split(c)\<close> for a one-character separator: the pieces between the separators,
  empty pieces included, so that a string without the separator gives itself alone.
\<close>

fun splitAcc :: "char \<Rightarrow> string \<Rightarrow> string \<Rightarrow> string list" where
  "splitAcc c acc [] = [rev acc]"
| "splitAcc c acc (x # xs) =
     (if x = c then rev acc # splitAcc c [] xs else splitAcc c (x # acc) xs)"

definition split :: "string \<Rightarrow> char \<Rightarrow> string list" where
  "split s c = splitAcc c [] s"

text \<open>\<^verbatim>\<open>xs[1]\<close>: the second element, \<^verbatim>\<open>undefined\<close> when there is none.\<close>

fun index1 :: "'a list \<Rightarrow> 'a option" where
  "index1 (_ # y # _) = Some y"
| "index1 _ = None"

section \<open>Token verification\<close>

text \<open>
  \<^verbatim>\<open>jwt.verify\<close> belongs to the jsonwebtoken package, not to the repository. Its
  documented checks are written out in their order: the token is decoded (a malformed
  token throws), the signature is checked against the secret, and the expiry claim, when
  there is one, is compared with the clock (a token is expired from the instant
  \<^verbatim>\<open>exp\<close> on). Decoding and the signature check are parameters. The function takes the
  token, the secret and the clock and nothing else.
\<close>

record jwt_payload =
  jwt_id :: string
  jwt_email :: string
  iat :: int
  exp :: "int option"

datatype jwt_error = JwtMalformed | InvalidSignature | TokenExpired

record jwt_env =
  decode :: "string \<Rightarrow> jwt_payload option"
  signatureOk :: "string \<Rightarrow> string \<Rightarrow> bool"
  secret :: string
  clock :: int

definition expired :: "jwt_env \<Rightarrow> jwt_payload \<Rightarrow> bool" where
  "expired env p = (case exp p of None \<Rightarrow> False | Some e \<Rightarrow> e \<le> clock env)"

definition jwt_verify :: "jwt_env \<Rightarrow> string \<Rightarrow> jwt_error + jwt_payload" where
  "jwt_verify env token =
     (case decode env token of
        None \<Rightarrow> Inl JwtMalformed
      | Some p \<Rightarrow>
          if \<not> signatureOk env (secret env) token then Inl InvalidSignature
          else if expired env p then Inl TokenExpired
          else Inr p)"

section \<open>The authentication middleware\<close>

record request =
  cookieToken :: "string option"     \<comment> \<open>\<^verbatim>\<open>req.cookies.token\<close>\<close>
  authorization :: "string option"   \<comment> \<open>\<^verbatim>\<open>req.headers.authorization\<close>\<close>

text \<open>Lines 7 to 17 of \<^verbatim>\<open>middleware/auth.js\<close>: the candidate token.\<close>

definition candidateToken :: "request \<Rightarrow> string option" where
  "candidateToken req =
     (if truthy (cookieToken req) then cookieToken req
      else if truthy (authorization req) \<and> startsWith (the (authorization req)) ''Bearer''
      then index1 (split (the (authorization req)) (CHR '' ''))
      else None)"

text \<open>
  \<^verbatim>\<open>User.findById\<close>: the first user with the identifier. Mongoose casts the argument
  to an ObjectId first and throws a CastError when it cannot; which strings can be cast is
  the parameter \<open>isObjectId\<close> of the functions that look a document up by identifier.
\<close>

definition findUserById :: "User list \<Rightarrow> string \<Rightarrow> User option" where
  "findUserById users i = find (\<lambda>u. uid u = i) users"

text \<open>\<^verbatim>\<open>.select('-password')\<close>\<close>

definition withoutPassword :: "User \<Rightarrow> User" where
  "withoutPassword u = u\<lparr>password := None\<rparr>"

text \<open>
  What the middleware does besides answering: the calls it makes to the token library and
  to the user store, in order.
\<close>

datatype effect = JwtVerify string | UserFindById string

datatype gate = Rejected response | Next User

text \<open>
  \<^verbatim>\<open>exports.protect\<close>. The result is either the response sent or the call of
  \<^verbatim>\<open>next()\<close> with the user attached to the request, together with the calls made.
  Everything thrown inside the \<^verbatim>\<open>try\<close> block (by \<^verbatim>\<open>jwt.verify\<close> or by the
  cast in \<^verbatim>\<open>findById\<close>) lands in the one \<^verbatim>\<open>catch\<close>.
\<close>

definition protect ::
    "(string \<Rightarrow> bool) \<Rightarrow> jwt_env \<Rightarrow> User list \<Rightarrow> request \<Rightarrow> gate \<times> effect list" where
  "protect isObjectId env users req =
     (if \<not> truthy (candidateToken req) then (Rejected (failure 401 PleaseLogin), [])
      else
        (let token = the (candidateToken req) in
         (case jwt_verify env token of
            Inl e \<Rightarrow> (Rejected (failure 401 TokenInvalidOrExpired), [JwtVerify token])
          | Inr decoded \<Rightarrow>
              (if \<not> isObjectId (jwt_id decoded)
               then (Rejected (failure 401 TokenInvalidOrExpired),
                     [JwtVerify token, UserFindById (jwt_id decoded)])
               else
                 (case findUserById users (jwt_id decoded) of
                    None \<Rightarrow> (Rejected (failure 401 UserDoesNotExist),
                             [JwtVerify token, UserFindById (jwt_id decoded)])
                  | Some u \<Rightarrow> (Next (withoutPassword u),
                             [JwtVerify token, UserFindById (jwt_id decoded)]))))))"

section \<open>The password hook of the User model\<close>

text \<open>
  \<^verbatim>\<open>userSchema.pre('save')\<close>, lines 48 to 55 of \<^verbatim>\<open>models/User.js\<close>. The
  branch for an unmodified password calls \<^verbatim>\<open>next()\<close> and does not return, so the two
  statements after it run on every save. \<^verbatim>\<open>bcrypt.genSalt\<close> and \<^verbatim>\<open>bcrypt.hash\<close>
  are the library's: the salt drawn and the hash function are parameters, and hashing an
  undefined password is the library's "Illegal arguments" error. Assigning a path marks it
  modified when the value changes. The result is the number of \<^verbatim>\<open>next()\<close> calls the
  body made and the document it leaves, or the error it threw. The function is the body
  of the hook, run to its end; how Mongoose interleaves it with the write of the save is
  not part of it.
\<close>

datatype hook_error = IllegalArguments

definition preSave ::
    "(string \<Rightarrow> string \<Rightarrow> string) \<Rightarrow> string \<Rightarrow> UserDoc \<Rightarrow> nat \<times> (hook_error + UserDoc)" where
  "preSave hash salt d =
     (let nextCalls = (if \<not> isModified d ''password'' then 1 else 0) in
      (case password (doc d) of
         None \<Rightarrow> (nextCalls, Inl IllegalArguments)
       | Some p \<Rightarrow>
           (nextCalls,
            Inr (d\<lparr>doc := (doc d)\<lparr>password := Some (hash p salt)\<rparr>,
                   modifiedPaths :=
                     (if hash p salt = p then modifiedPaths d
                      else List.insert ''password'' (modifiedPaths d))\<rparr>))))"

section \<open>The transaction routes\<close>

subsection \<open>Request parameters and their validation\<close>

text \<open>
  A parameter that the validators parse as a number is absent, or a text the validator
  refuses, or a text the validator accepts; \<open>Parsed n\<close> is an accepted text that
  JavaScript reads as the number \<open>n\<close>. JavaScript's numbers are doubles: the text of an
  integer beyond \<^verbatim>\<open>2^53\<close> is read as the nearest double, and \<open>n\<close> is then that
  number, not the one written. The validator compares, and \<^verbatim>\<open>parseInt\<close> returns, the
  number read. The validation chains are \<^verbatim>\<open>optional()\<close>: an absent parameter passes.
  A handler reads the parameters only after the validators have passed, so a refused text
  never reaches the code after them.
\<close>

datatype 'a raw = Absent | Garbled | Parsed 'a

text \<open>\<^verbatim>\<open>optional().isInt({min, max})\<close>\<close>

definition isInt :: "int raw \<Rightarrow> int \<Rightarrow> int option \<Rightarrow> bool" where
  "isInt v lo hi =
     (case v of
        Absent \<Rightarrow> True
      | Garbled \<Rightarrow> False
      | Parsed n \<Rightarrow> lo \<le> n \<and> (case hi of None \<Rightarrow> True | Some h \<Rightarrow> n \<le> h))"

text \<open>\<^verbatim>\<open>optional().isIn([...])\<close>\<close>

definition isIn :: "string option \<Rightarrow> string list \<Rightarrow> bool" where
  "isIn v xs = (case v of None \<Rightarrow> True | Some s \<Rightarrow> List.member xs s)"

text \<open>
  \<^verbatim>\<open>optional().isISO8601()\<close> on the date of a PUT body. The body's date goes to the
  schema's cast as it is, not to \<^verbatim>\<open>new Date\<close>: there \<open>Parsed d\<close> is an accepted
  text that the cast reads as the instant \<open>d\<close>.
\<close>

definition isISO8601 :: "int raw \<Rightarrow> bool" where
  "isISO8601 v = (v \<noteq> Garbled)"

text \<open>\<^verbatim>\<open>optional().isFloat({min})\<close>\<close>

definition isFloat :: "rat raw \<Rightarrow> rat \<Rightarrow> bool" where
  "isFloat v lo = (case v of Absent \<Rightarrow> True | Garbled \<Rightarrow> False | Parsed a \<Rightarrow> lo \<le> a)"

text \<open>
  A date parameter of the list request is absent or a text. Two things about the text
  matter, and they are independent: whether \<^verbatim>\<open>isISO8601\<close> accepts it, and what
  \<^verbatim>\<open>new Date\<close> reads from it, which is an instant (in milliseconds) or Invalid Date.
  The validator accepts the week dates and the ordinal dates of ISO 8601
  (\<^verbatim>\<open>2024-W03\<close>, \<^verbatim>\<open>2024-015\<close>), which \<^verbatim>\<open>new Date\<close> reads as Invalid Date.
\<close>

datatype js_date = InvalidDate | DateAt int

datatype date_param = NoDate | DateString bool js_date

text \<open>\<^verbatim>\<open>optional().isISO8601()\<close> on a date parameter of the list request.\<close>

definition acceptedDate :: "date_param \<Rightarrow> bool" where
  "acceptedDate v = (case v of NoDate \<Rightarrow> True | DateString ok d \<Rightarrow> ok)"

text \<open>\<^verbatim>\<open>new Date(v)\<close> for a parameter that is there.\<close>

definition newDate :: "date_param \<Rightarrow> js_date option" where
  "newDate v = (case v of NoDate \<Rightarrow> None | DateString ok d \<Rightarrow> Some d)"

text \<open>
  A text parameter is given once, or several times, in which case the request holds the
  list of its values. The category is modelled with both; the other text parameters
  (type, search, sort) are taken as given at most once.
\<close>

datatype qvalue = Single string | Repeated "string list"

definition truthyValue :: "qvalue option \<Rightarrow> bool" where
  "truthyValue v =
     (case v of None \<Rightarrow> False | Some (Single s) \<Rightarrow> s \<noteq> [] | Some (Repeated ss) \<Rightarrow> True)"

record list_query =
  q_page :: "int raw"
  q_limit :: "int raw"
  q_type :: "string option"
  q_category :: "qvalue option"
  q_startDate :: date_param
  q_endDate :: date_param
  q_search :: "string option"
  q_sort :: "string option"

text \<open>
  Lines 15 to 22 and 26 to 32 of \<^verbatim>\<open>routes/transactions.js\<close>: the fields whose
  validators fail, in the order of the chains.
\<close>

definition validateList :: "list_query \<Rightarrow> string list" where
  "validateList q =
     (if isInt (q_page q) 1 None then [] else [''page'']) @
     (if isInt (q_limit q) 1 (Some 100) then [] else [''limit'']) @
     (if isIn (q_type q) [''thu'', ''chi''] then [] else [''type'']) @
     (if acceptedDate (q_startDate q) then [] else [''startDate'']) @
     (if acceptedDate (q_endDate q) then [] else [''endDate'']) @
     (if isIn (q_sort q) [''date'', ''-date'', ''amount'', ''-amount''] then []
      else [''sort''])"

text \<open>
  The two sanitizers of the chains: category and search are trimmed in the request, a
  repeated category value by value. \<^verbatim>\<open>trim()\<close> is the validator library's; what it
  makes of a text is the parameter \<open>trim\<close>.
\<close>

definition trimValue :: "(string \<Rightarrow> string) \<Rightarrow> qvalue \<Rightarrow> qvalue" where
  "trimValue trim v =
     (case v of Single s \<Rightarrow> Single (trim s) | Repeated ss \<Rightarrow> Repeated (map trim ss))"

definition sanitize :: "(string \<Rightarrow> string) \<Rightarrow> list_query \<Rightarrow> list_query" where
  "sanitize trim q =
     q\<lparr>q_category := map_option (trimValue trim) (q_category q),
       q_search := map_option trim (q_search q)\<rparr>"

subsection \<open>The query object\<close>

text \<open>
  The filter object the handler builds (lines 40 to 69): the owner always, every other
  key only when its parameter is truthy. The date key holds the two optional bounds, each
  one what \<^verbatim>\<open>new Date\<close> read. The search key stands for the \<^verbatim>\<open>$or\<close> of the two
  case-insensitive \<^verbatim>\<open>$regex\<close> conditions, on the description and on the category.
\<close>

record mquery =
  m_user :: string
  m_type :: "string option"
  m_category :: "qvalue option"
  m_date :: "(js_date option \<times> js_date option) option"
  m_or :: "string option"

definition buildQuery :: "string \<Rightarrow> list_query \<Rightarrow> mquery" where
  "buildQuery userId q =
     \<lparr>m_user = userId,
      m_type = (if truthy (q_type q) then q_type q else None),
      m_category = (if truthyValue (q_category q) then q_category q else None),
      m_date =
        (if q_startDate q \<noteq> NoDate \<or> q_endDate q \<noteq> NoDate
         then Some (newDate (q_startDate q), newDate (q_endDate q))
         else None),
      m_or = (if truthy (q_search q) then q_search q else None)\<rparr>"

text \<open>
  How the store reads the filter object. A text under a key is an equality condition; a
  list of texts is cast by Mongoose to \<^verbatim>\<open>$in\<close>, one of the values. A bound that is
  Invalid Date cannot be cast to the date path: the query throws a CastError and no
  document is read. The regular expression engine is the store's: \<open>regex p\<close> is the
  case-insensitive matcher of the pattern \<open>p\<close>, or nothing when the pattern is not a
  regular expression, in which case the query throws.
\<close>

definition atOrAfter :: "js_date option \<Rightarrow> int \<Rightarrow> bool" where
  "atOrAfter lo d = (case lo of None \<Rightarrow> True | Some InvalidDate \<Rightarrow> False | Some (DateAt a) \<Rightarrow> a \<le> d)"

definition atOrBefore :: "js_date option \<Rightarrow> int \<Rightarrow> bool" where
  "atOrBefore hi d = (case hi of None \<Rightarrow> True | Some InvalidDate \<Rightarrow> False | Some (DateAt b) \<Rightarrow> d \<le> b)"

definition dateInRange :: "(js_date option \<times> js_date option) option \<Rightarrow> int \<Rightarrow> bool" where
  "dateInRange r d =
     (case r of None \<Rightarrow> True | Some (lo, hi) \<Rightarrow> atOrAfter lo d \<and> atOrBefore hi d)"

definition categoryMatches :: "qvalue option \<Rightarrow> string \<Rightarrow> bool" where
  "categoryMatches v c =
     (case v of
        None \<Rightarrow> True
      | Some (Single s) \<Rightarrow> c = s
      | Some (Repeated ss) \<Rightarrow> List.member ss c)"

definition searchMatches ::
    "(string \<Rightarrow> (string \<Rightarrow> bool) option) \<Rightarrow> string option \<Rightarrow> Transaction \<Rightarrow> bool" where
  "searchMatches regex s t =
     (case s of
        None \<Rightarrow> True
      | Some p \<Rightarrow>
          (case regex p of
             None \<Rightarrow> False
           | Some r \<Rightarrow> r (description t) \<or> r (category t)))"

definition matches ::
    "(string \<Rightarrow> (string \<Rightarrow> bool) option) \<Rightarrow> mquery \<Rightarrow> Transaction \<Rightarrow> bool" where
  "matches regex m t =
     (user t = m_user m \<and>
      (case m_type m of None \<Rightarrow> True | Some v \<Rightarrow> type t = v) \<and>
      categoryMatches (m_category m) (category t) \<and>
      dateInRange (m_date m) (date t) \<and>
      searchMatches regex (m_or m) t)"

text \<open>
  What running the query throws, if anything: the cast of the filter comes first, the
  store's reading of the pattern after it.
\<close>

definition invalidBound :: "(js_date option \<times> js_date option) option \<Rightarrow> bool" where
  "invalidBound r =
     (case r of None \<Rightarrow> False | Some (lo, hi) \<Rightarrow> lo = Some InvalidDate \<or> hi = Some InvalidDate)"

definition queryError ::
    "(string \<Rightarrow> (string \<Rightarrow> bool) option) \<Rightarrow> mquery \<Rightarrow> thrown option" where
  "queryError regex m =
     (if invalidBound (m_date m) then Some CastError
      else
        (case m_or m of
           None \<Rightarrow> None
         | Some p \<Rightarrow> (if regex p = None then Some RegexError else None)))"

text \<open>\<^verbatim>\<open>Transaction.find(query)\<close>, in the store's order.\<close>

definition findDocs ::
    "(string \<Rightarrow> (string \<Rightarrow> bool) option) \<Rightarrow> mquery \<Rightarrow> Transaction list \<Rightarrow> Transaction list" where
  "findDocs regex m db = filter (matches regex m) db"

text \<open>
  \<^verbatim>\<open>.sort(key)\<close> for the four keys the validator lets through; a leading minus sign
  is descending order. Documents with equal keys keep the store's order.
\<close>

definition sortDocs :: "string \<Rightarrow> Transaction list \<Rightarrow> Transaction list" where
  "sortDocs key xs =
     (if key = ''date'' then sort_key date xs
      else if key = ''-date'' then sort_key (\<lambda>t. - date t) xs
      else if key = ''amount'' then sort_key amount xs
      else if key = ''-amount'' then sort_key (\<lambda>t. - amount t) xs
      else xs)"

subsection \<open>GET /api/transactions\<close>

text \<open>
  \<^verbatim>\<open>parseInt(v) || d\<close>: the number read, or the default when the value is absent or
  the number is zero.
\<close>

definition parseIntOr :: "int raw \<Rightarrow> int \<Rightarrow> int" where
  "parseIntOr v d = (case v of Parsed n \<Rightarrow> (if n = 0 then d else n) | _ \<Rightarrow> d)"

definition pageOf :: "list_query \<Rightarrow> int" where
  "pageOf q = parseIntOr (q_page q) 1"

definition limitOf :: "list_query \<Rightarrow> int" where
  "limitOf q = parseIntOr (q_limit q) 10"

definition sortOf :: "list_query \<Rightarrow> string" where
  "sortOf q = (if truthy (q_sort q) then the (q_sort q) else ''-date'')"

text \<open>What a handler answers from its \<^verbatim>\<open>catch\<close>.\<close>

definition thrownResponse :: "message \<Rightarrow> thrown \<Rightarrow> response" where
  "thrownResponse m e =
     \<lparr>status = 500, success = False, message = Some m, payload = Diagnostic e\<rparr>"

text \<open>
  The handler of lines 23 to 99, for the authenticated user \<open>u\<close> that
  \<^const>\<open>protect\<close> attached to the request.
\<close>

definition listTransactions ::
    "(string \<Rightarrow> (string \<Rightarrow> bool) option) \<Rightarrow> (string \<Rightarrow> string) \<Rightarrow> Transaction list \<Rightarrow> User \<Rightarrow>
       list_query \<Rightarrow> response" where
  "listTransactions regex trim db u q0 =
     (if validateList q0 \<noteq> []
      then \<lparr>status = 400, success = False, message = None,
            payload = FieldErrors (validateList q0)\<rparr>
      else
        (let q = sanitize trim q0;
             page = pageOf q;
             limit = limitOf q;
             skip = (page - 1) * limit;
             query = buildQuery (uid u) q;
             sort = sortOf q
         in
           (case queryError regex query of
              Some e \<Rightarrow> thrownResponse ListFailed e
            | None \<Rightarrow>
                (let transactions =
                       take (nat limit) (drop (nat skip) (sortDocs sort (findDocs regex query db)));
                     total = length (findDocs regex query db)
                 in \<lparr>status = 200, success = True, message = None,
                      payload =
                        Listing (length transactions) total page
                          \<lceil>rat_of_nat total / rat_of_int limit\<rceil> transactions\<rparr>))))"

text \<open>
  The numbers of the handler are JavaScript doubles. They are integers, and the
  arithmetic on them (the documents to skip, the count, the quotient under
  \<^verbatim>\<open>Math.ceil\<close>) is the integer arithmetic written above as long as the products of the
  page and of the number of documents with the limit stay within
  \<^verbatim>\<open>Number.MAX_SAFE_INTEGER\<close>. The results about listings are stated for such requests
  and stores.
\<close>

definition maxSafeInteger :: int where
  "maxSafeInteger = 2 ^ 53 - 1"

definition exactArithmetic :: "list_query \<Rightarrow> Transaction list \<Rightarrow> bool" where
  "exactArithmetic q db =
     (pageOf q * limitOf q \<le> maxSafeInteger \<and> int (length db) * limitOf q \<le> maxSafeInteger)"

text \<open>The \<^verbatim>\<open>data\<close>, the \<^verbatim>\<open>pages\<close> and the \<^verbatim>\<open>total\<close> of a listing response.\<close>

definition dataOf :: "response \<Rightarrow> Transaction list" where
  "dataOf r = (case payload r of Listing c t p ps d \<Rightarrow> d | _ \<Rightarrow> [])"

definition pagesOf :: "response \<Rightarrow> int" where
  "pagesOf r = (case payload r of Listing c t p ps d \<Rightarrow> ps | _ \<Rightarrow> 0)"

definition totalOf :: "response \<Rightarrow> nat" where
  "totalOf r = (case payload r of Listing c t p ps d \<Rightarrow> t | _ \<Rightarrow> 0)"

subsection \<open>GET, PUT and DELETE /api/transactions/:id\<close>

text \<open>
  \<^verbatim>\<open>Transaction.findOne({_id, user})\<close>: the first document with both the identifier
  and the owner.
\<close>

definition findOne :: "Transaction list \<Rightarrow> string \<Rightarrow> string \<Rightarrow> Transaction option" where
  "findOne db i userId = find (\<lambda>t. tid t = i \<and> user t = userId) db"

text \<open>Lines 104 to 129.\<close>

definition getTransaction ::
    "(string \<Rightarrow> bool) \<Rightarrow> Transaction list \<Rightarrow> User \<Rightarrow> string \<Rightarrow> response" where
  "getTransaction isObjectId db u i =
     (if \<not> isObjectId i then thrownResponse GetFailed CastError
      else
        (case findOne db i (uid u) of
           None \<Rightarrow> failure 404 TransactionNotFound
         | Some t \<Rightarrow> \<lparr>status = 200, success = True, message = None, payload = Doc t\<rparr>))"

text \<open>
  The body of a PUT request, restricted to the paths of the schema that an update can set
  (Mongoose drops the keys that are not paths of the schema; the identifier cannot be
  changed).
\<close>

record update_body =
  b_user :: "string option"
  b_type :: "string option"
  b_category :: "string option"
  b_amount :: "rat raw"
  b_description :: "string option"
  b_date :: "int raw"

text \<open>Lines 174 to 176 and 180 to 186.\<close>

definition validateUpdate :: "update_body \<Rightarrow> string list" where
  "validateUpdate b =
     (if isIn (b_type b) [''thu'', ''chi''] then [] else [''type'']) @
     (if isFloat (b_amount b) (1 / 100) then [] else [''amount'']) @
     (if isISO8601 (b_date b) then [] else [''date''])"

text \<open>
  What the update sets: every path the body supplies takes the body's value, every other
  path keeps its own.
\<close>

definition applyUpdate :: "update_body \<Rightarrow> Transaction \<Rightarrow> Transaction" where
  "applyUpdate b t =
     t\<lparr>user := (case b_user b of None \<Rightarrow> user t | Some v \<Rightarrow> v),
       type := (case b_type b of None \<Rightarrow> type t | Some v \<Rightarrow> v),
       category := (case b_category b of None \<Rightarrow> category t | Some v \<Rightarrow> v),
       amount := (case b_amount b of Parsed v \<Rightarrow> v | _ \<Rightarrow> amount t),
       description := (case b_description b of None \<Rightarrow> description t | Some v \<Rightarrow> v),
       date := (case b_date b of Parsed v \<Rightarrow> v | _ \<Rightarrow> date t)\<rparr>"

fun updateFirst :: "('a \<Rightarrow> bool) \<Rightarrow> ('a \<Rightarrow> 'a) \<Rightarrow> 'a list \<Rightarrow> 'a list" where
  "updateFirst P f [] = []"
| "updateFirst P f (x # xs) = (if P x then f x # xs else x # updateFirst P f xs)"

text \<open>
  \<^verbatim>\<open>Transaction.findByIdAndUpdate(id, body, {new: true, ...})\<close>: the first document
  with the identifier is updated, and the document as it is after the update is returned.
\<close>

definition findByIdAndUpdate ::
    "Transaction list \<Rightarrow> string \<Rightarrow> update_body \<Rightarrow> Transaction option \<times> Transaction list" where
  "findByIdAndUpdate db i b =
     (let db' = updateFirst (\<lambda>t. tid t = i) (applyUpdate b) db
      in (find (\<lambda>t. tid t = i) db', db'))"

text \<open>
  Lines 177 to 221. Mongoose casts the update to the schema and, under
  \<^verbatim>\<open>runValidators\<close>, runs the schema's validators on it; an update that fails either
  throws. The Transaction schema is not among the sources, so which updates it accepts is
  the parameter \<open>schemaAccepts\<close>. The result is the response and the store afterwards.
\<close>

definition updateTransaction ::
    "(string \<Rightarrow> bool) \<Rightarrow> (update_body \<Rightarrow> bool) \<Rightarrow> Transaction list \<Rightarrow> User \<Rightarrow> string \<Rightarrow>
       update_body \<Rightarrow> response \<times> Transaction list" where
  "updateTransaction isObjectId schemaAccepts db u i b =
     (if validateUpdate b \<noteq> []
      then (\<lparr>status = 400, success = False, message = None,
             payload = FieldErrors (validateUpdate b)\<rparr>, db)
      else if \<not> isObjectId i then (thrownResponse UpdateFailed CastError, db)
      else
        (case findOne db i (uid u) of
           None \<Rightarrow> (failure 404 TransactionNotFound, db)
         | Some t \<Rightarrow>
             if \<not> schemaAccepts b then (thrownResponse UpdateFailed ValidationError, db)
             else
               (case findByIdAndUpdate db i b of
                  (t', db') \<Rightarrow>
                    (\<lparr>status = 200, success = True, message = Some UpdateSucceeded,
                      payload = (case t' of None \<Rightarrow> NoData | Some d \<Rightarrow> Doc d)\<rparr>, db'))))"

fun removeFirst :: "('a \<Rightarrow> bool) \<Rightarrow> 'a list \<Rightarrow> 'a list" where
  "removeFirst P [] = []"
| "removeFirst P (x # xs) = (if P x then xs else x # removeFirst P xs)"

text \<open>Lines 226 to 253; \<^verbatim>\<open>transaction.deleteOne()\<close> deletes by the identifier.\<close>

definition deleteTransaction ::
    "(string \<Rightarrow> bool) \<Rightarrow> Transaction list \<Rightarrow> User \<Rightarrow> string \<Rightarrow> response \<times> Transaction list" where
  "deleteTransaction isObjectId db u i =
     (if \<not> isObjectId i then (thrownResponse DeleteFailed CastError, db)
      else
        (case findOne db i (uid u) of
           None \<Rightarrow> (failure 404 TransactionNotFound, db)
         | Some t \<Rightarrow>
             (\<lparr>status = 200, success = True, message = Some DeleteSucceeded,
               payload = NoData\<rparr>,
              removeFirst (\<lambda>x. tid x = tid t) db)))"

subsection \<open>The store and the filtered set of a request\<close>

text \<open>The store keeps \<^verbatim>\<open>_id\<close> unique.\<close>

definition uniqueIds :: "Transaction list \<Rightarrow> bool" where
  "uniqueIds db = distinct (map tid db)"

text \<open>The store without the document of an identifier.\<close>

definition without :: "Transaction list \<Rightarrow> string \<Rightarrow> Transaction list" where
  "without db i = filter (\<lambda>x. tid x \<noteq> i) db"

text \<open>
  The documents a list request matches, before sorting and pagination: what
  \<^const>\<open>listTransactions\<close> sorts, cuts a page from and counts.
\<close>

definition matched ::
    "(string \<Rightarrow> (string \<Rightarrow> bool) option) \<Rightarrow> (string \<Rightarrow> string) \<Rightarrow> Transaction list \<Rightarrow> User \<Rightarrow>
       list_query \<Rightarrow> Transaction list" where
  "matched regex trim db u q = findDocs regex (buildQuery (uid u) (sanitize trim q)) db"

text \<open>What running the query of a request throws, if anything.\<close>

definition requestError ::
    "(string \<Rightarrow> (string \<Rightarrow> bool) option) \<Rightarrow> (string \<Rightarrow> string) \<Rightarrow> User \<Rightarrow> list_query \<Rightarrow>
       thrown option" where
  "requestError regex trim u q = queryError regex (buildQuery (uid u) (sanitize trim q))"

text \<open>The same request with the date bounds, or with the category filter, left out.\<close>

definition withoutDates :: "list_query \<Rightarrow> list_query" where
  "withoutDates q = q\<lparr>q_startDate := NoDate, q_endDate := NoDate\<rparr>"

definition withoutCategory :: "list_query \<Rightarrow> list_query" where
  "withoutCategory q = q\<lparr>q_category := None\<rparr>"

text \<open>
  The page a request cuts from its matched documents: sorted, then \<^verbatim>\<open>skip\<close> documents
  dropped and at most \<^verbatim>\<open>limit\<close> taken.
\<close>

definition pageCut :: "list_query \<Rightarrow> Transaction list \<Rightarrow> Transaction list" where
  "pageCut q xs =
     take (nat (limitOf q)) (drop (nat ((pageOf q - 1) * limitOf q)) (sortDocs (sortOf q) xs))"

subsection \<open>The category filter as the spec words it\<close>

text \<open>
  Following the spec's words, not the source: a category matches the filter value when
  the value occurs in it as a substring, letter case ignored.
\<close>

definition toLower :: "char \<Rightarrow> char" where
  "toLower c =
     (case map_of (zip ''ABCDEFGHIJKLMNOPQRSTUVWXYZ'' ''abcdefghijklmnopqrstuvwxyz'') c of
        None \<Rightarrow> c
      | Some l \<Rightarrow> l)"

fun containsSub :: "string \<Rightarrow> string \<Rightarrow> bool" where
  "containsSub p [] = (p = [])"
| "containsSub p (x # xs) = (startsWith (x # xs) p \<or> containsSub p xs)"

definition specCategoryMatch :: "string \<Rightarrow> string \<Rightarrow> bool" where
  "specCategoryMatch v c = containsSub (map toLower v) (map toLower c)"

definition specCategoryListing :: "Transaction list \<Rightarrow> User \<Rightarrow> string \<Rightarrow> Transaction list" where
  "specCategoryListing db u v =
     filter (\<lambda>t. user t = uid u \<and> specCategoryMatch v (category t)) db"

section \<open>Example data\<close>

definition alice :: User where
  "alice = \<lparr>uid = ''65a000000000000000000a11'', name = ''Alice'', email = ''alice@example.org'',
     password = None, avatar = ''default-avatar.png'', role = ''user'',
     createdAt = 1704067200000, resetPasswordToken = None, resetPasswordExpire = None\<rparr>"

definition bob :: User where
  "bob = \<lparr>uid = ''65a000000000000000000b0b'', name = ''Bob'', email = ''bob@example.org'',
     password = None, avatar = ''default-avatar.png'', role = ''user'',
     createdAt = 1704067200000, resetPasswordToken = None, resetPasswordExpire = None\<rparr>"

text \<open>The two transactions of the spec's end-to-end scenario, owned by Alice.\<close>

definition salaryTx :: Transaction where
  "salaryTx = \<lparr>tid = ''65b000000000000000000001'', user = ''65a000000000000000000a11'',
     type = ''thu'', category = ''Salary'', amount = 100, description = ''January pay'',
     date = 1705276800000, created = 1705276800000\<rparr>"

definition foodTx :: Transaction where
  "foodTx = \<lparr>tid = ''65b000000000000000000002'', user = ''65a000000000000000000a11'',
     type = ''chi'', category = ''Food'', amount = 30, description = ''Groceries'',
     date = 1705708800000, created = 1705708800000\<rparr>"

definition bobTx :: Transaction where
  "bobTx = \<lparr>tid = ''65b000000000000000000003'', user = ''65a000000000000000000b0b'',
     type = ''chi'', category = ''Food'', amount = 12, description = ''Lunch'',
     date = 1705500000000, created = 1705500000000\<rparr>"

text \<open>
  A stand-in for bcrypt in the examples, and a document of Alice's loaded with its stored
  hash, of which only the name was changed.
\<close>

definition exampleHash :: "string \<Rightarrow> string \<Rightarrow> string" where
  "exampleHash p salt = salt @ ''#'' @ p"

definition renamedAlice :: UserDoc where
  "renamedAlice =
     \<lparr>doc = alice\<lparr>name := ''Alice B'', password := Some ''$2a$10$storedhash''\<rparr>,
      modifiedPaths = [''name'']\<rparr>"

definition exampleDb :: "Transaction list" where
  "exampleDb = [salaryTx, foodTx, bobTx]"

definition exampleIsObjectId :: "string \<Rightarrow> bool" where
  "exampleIsObjectId s = (length s = 24)"

text \<open>
  A stand-in for the validator's \<^verbatim>\<open>trim()\<close> in the examples: the six ASCII white space
  characters off both ends, which is what the library does to a text of ASCII characters.
\<close>

definition isSpace :: "char \<Rightarrow> bool" where
  "isSpace c = List.member [CHR '' '', CHR 0x09, CHR 0x0A, CHR 0x0B, CHR 0x0C, CHR 0x0D] c"

definition exampleTrim :: "string \<Rightarrow> string" where
  "exampleTrim s = rev (dropWhile isSpace (rev (dropWhile isSpace s)))"

text \<open>A matcher that reads a pattern as literal text, letter case ignored.\<close>

definition exampleRegex :: "string \<Rightarrow> (string \<Rightarrow> bool) option" where
  "exampleRegex p = Some (specCategoryMatch p)"

definition noFilters :: list_query where
  "noFilters = \<lparr>q_page = Absent, q_limit = Absent, q_type = None, q_category = None,
     q_startDate = NoDate, q_endDate = NoDate, q_search = None, q_sort = None\<rparr>"

definition emptyBody :: update_body where
  "emptyBody = \<lparr>b_user = None, b_type = None, b_category = None, b_amount = Absent,
     b_description = None, b_date = Absent\<rparr>"

definition payRise :: update_body where
  "payRise = emptyBody\<lparr>b_amount := Parsed 150, b_description := Some ''Pay rise''\<rparr>"

definition onePerPage :: list_query where
  "onePerPage = noFilters\<lparr>q_limit := Parsed 1\<rparr>"

text \<open>From 16 January 2024 to 20 January 2024, both at midnight UTC.\<close>

definition january16To20 :: list_query where
  "january16To20 =
     noFilters\<lparr>q_startDate := DateString True (DateAt 1705363200000),
               q_endDate := DateString True (DateAt 1705708800000)\<rparr>"

text \<open>
  A start bound written as an ISO 8601 week date, \<^verbatim>\<open>startDate=2024-W03\<close>: the
  validator accepts it and \<^verbatim>\<open>new Date\<close> reads Invalid Date.
\<close>

definition fromWeek3 :: list_query where
  "fromWeek3 = noFilters\<lparr>q_startDate := DateString True InvalidDate\<rparr>"

definition foodOnly :: list_query where
  "foodOnly = noFilters\<lparr>q_category := Some (Single '' Food '')\<rparr>"

definition foodOrSalary :: list_query where
  "foodOrSalary = noFilters\<lparr>q_category := Some (Repeated [''Food'', ''Salary''])\<rparr>"

text \<open>
  A token environment whose clock stands at 1500: one token of Alice's that is still
  valid, and one correctly signed token that expired at 500.
\<close>

definition exampleEnv :: jwt_env where
  "exampleEnv =
     \<lparr>decode = (\<lambda>t.
         if t = ''token-alice''
         then Some \<lparr>jwt_id = ''65a000000000000000000a11'', jwt_email = ''alice@example.org'',
                    iat = 1000, exp = Some 2000\<rparr>
         else if t = ''token-old''
         then Some \<lparr>jwt_id = ''65a000000000000000000a11'', jwt_email = ''alice@example.org'',
                    iat = 100, exp = Some 500\<rparr>
         else None),
       signatureOk = (\<lambda>k t. k = ''s3cret'' \<and> (t = ''token-alice'' \<or> t = ''token-old'')),
       secret = ''s3cret'',
       clock = 1500\<rparr>"

section \<open>Splitting the Authorization header\<close>

lemma splitAcc_no_sep: "c \<notin> set s \<Longrightarrow> splitAcc c acc s = [rev acc @ s]"
  by (induction s arbitrary: acc) auto

lemma splitAcc_first_sep:
  "c \<notin> set s \<Longrightarrow> splitAcc c acc (s @ c # rest) = (rev acc @ s) # splitAcc c [] rest"
  by (induction s arbitrary: acc) auto

lemma split_bearer:
  assumes "CHR '' '' \<notin> set tok"
  shows "index1 (split (''Bearer '' @ tok) (CHR '' '')) = Some tok"
proof -
  have "split (''Bearer '' @ tok) (CHR '' '') = ''Bearer'' # splitAcc (CHR '' '') [] tok"
    using splitAcc_first_sep [of "CHR '' ''" "''Bearer''" "[]" tok] by (simp add: split_def)
  then show ?thesis using assms by (simp add: splitAcc_no_sep)
qed

section \<open>The authentication middleware: results\<close>

lemma verify_alice: "jwt_verify exampleEnv ''token-alice'' =
    Inr \<lparr>jwt_id = ''65a000000000000000000a11'', jwt_email = ''alice@example.org'',
                    iat = 1000, exp = Some 2000\<rparr>"
  by (simp add: jwt_verify_def exampleEnv_def expired_def)

lemma find_alice: "findUserById [alice] ''65a000000000000000000a11'' = Some alice"
  by (simp add: findUserById_def alice_def)

text \<open>
  C6. The cookie is looked at first: when it holds a token (its value is truthy, which is
  how the source tests it), that token is the candidate, whatever the Authorization header
  says, and it is the token the middleware hands to the token library. Only when the
  cookie holds none is the header read: a header that starts with \<^verbatim>\<open>Bearer\<close>
  gives the second piece of its split at the spaces, so that \<^verbatim>\<open>Bearer t\<close> gives
  the candidate \<^verbatim>\<open>t\<close>, which is then the token verified; a header that does not
  start with \<^verbatim>\<open>Bearer\<close> gives no candidate. Without a candidate, and so when
  neither the cookie nor the header is there, the answer is 401 with the "please log in"
  message, and the middleware has called neither the token library nor the user store.
  With a candidate that verifies and whose user is in the store, the middleware calls
  \<^verbatim>\<open>next()\<close> with that user, after one call to the library and one to the store.
\<close>

theorem protect_token_source:
  "(truthy (cookieToken req) \<longrightarrow>
      candidateToken req = cookieToken req \<and>
      take 1 (snd (protect isObjectId env users req)) = [JwtVerify (the (cookieToken req))]) \<and>
   (\<not> truthy (cookieToken req) \<and> authorization req = Some h \<and> startsWith h ''Bearer'' \<longrightarrow>
      candidateToken req = index1 (split h (CHR '' ''))) \<and>
   (\<not> truthy (cookieToken req) \<and> authorization req = Some (''Bearer '' @ tok) \<and>
      CHR '' '' \<notin> set tok \<longrightarrow>
      candidateToken req = Some tok \<and>
      (tok \<noteq> [] \<longrightarrow> take 1 (snd (protect isObjectId env users req)) = [JwtVerify tok])) \<and>
   (\<not> truthy (cookieToken req) \<and> authorization req = Some h \<and> \<not> startsWith h ''Bearer'' \<longrightarrow>
      candidateToken req = None \<and>
      protect isObjectId env users req = (Rejected (failure 401 PleaseLogin), [])) \<and>
   (\<not> truthy (cookieToken req) \<and> \<not> truthy (authorization req) \<longrightarrow>
      candidateToken req = None \<and>
      protect isObjectId env users req = (Rejected (failure 401 PleaseLogin), [])) \<and>
   (\<not> truthy (candidateToken req) \<longrightarrow>
      protect isObjectId env users req = (Rejected (failure 401 PleaseLogin), [])) \<and>
   (candidateToken req = Some t \<and> t \<noteq> [] \<and> jwt_verify env t = Inr p \<and>
      isObjectId (jwt_id p) \<and> findUserById users (jwt_id p) = Some u \<longrightarrow>
      protect isObjectId env users req =
        (Next (withoutPassword u), [JwtVerify t, UserFindById (jwt_id p)]))"
proof -
  have trace: "take 1 (snd (protect isObjectId env users req)) = [JwtVerify x]"
    if "candidateToken req = Some x" and "x \<noteq> []" for x
    using that
    by (auto simp: protect_def truthy_def Let_def split: sum.splits option.splits)
  have none: "protect isObjectId env users req = (Rejected (failure 401 PleaseLogin), [])"
    if "\<not> truthy (candidateToken req)"
    using that by (simp add: protect_def)
  have c1: "candidateToken req = cookieToken req \<and>
      take 1 (snd (protect isObjectId env users req)) = [JwtVerify (the (cookieToken req))]"
    if a: "truthy (cookieToken req)"
  proof -
    have e: "candidateToken req = cookieToken req" using a by (simp add: candidateToken_def)
    obtain c where c: "cookieToken req = Some c" "c \<noteq> []"
      using a by (auto simp: truthy_def split: option.splits)
    with e trace [of c] show ?thesis by simp
  qed
  have c2: "candidateToken req = index1 (split h (CHR '' ''))"
    if a: "\<not> truthy (cookieToken req) \<and> authorization req = Some h \<and> startsWith h ''Bearer''"
  proof -
    from a have "h \<noteq> []" by (auto simp: startsWith_def)
    with a show ?thesis by (simp add: candidateToken_def truthy_def)
  qed
  have c3: "candidateToken req = Some tok \<and>
      (tok \<noteq> [] \<longrightarrow> take 1 (snd (protect isObjectId env users req)) = [JwtVerify tok])"
    if a: "\<not> truthy (cookieToken req) \<and> authorization req = Some (''Bearer '' @ tok) \<and>
      CHR '' '' \<notin> set tok"
  proof -
    from a have "index1 (split (''Bearer '' @ tok) (CHR '' '')) = Some tok"
      using split_bearer [of tok] by blast
    with a have "candidateToken req = Some tok"
      by (simp add: candidateToken_def truthy_def startsWith_def)
    with trace [of tok] show ?thesis by simp
  qed
  have c4: "candidateToken req = None \<and>
      protect isObjectId env users req = (Rejected (failure 401 PleaseLogin), [])"
    if a: "\<not> truthy (cookieToken req) \<and> authorization req = Some h \<and> \<not> startsWith h ''Bearer''"
  proof -
    from a have "candidateToken req = None" by (simp add: candidateToken_def)
    with none show ?thesis by (simp add: truthy_def)
  qed
  have c5: "candidateToken req = None \<and>
      protect isObjectId env users req = (Rejected (failure 401 PleaseLogin), [])"
    if a: "\<not> truthy (cookieToken req) \<and> \<not> truthy (authorization req)"
  proof -
    from a have "candidateToken req = None" by (simp add: candidateToken_def)
    with none show ?thesis by (simp add: truthy_def)
  qed
  have c7: "protect isObjectId env users req =
        (Next (withoutPassword u), [JwtVerify t, UserFindById (jwt_id p)])"
    if "candidateToken req = Some t \<and> t \<noteq> [] \<and> jwt_verify env t = Inr p \<and>
      isObjectId (jwt_id p) \<and> findUserById users (jwt_id p) = Some u"
    using that by (simp add: protect_def truthy_def)
  show ?thesis using c1 c2 c3 c4 c5 none c7 by blast
qed

theorem protect_token_source_witness:
  "protect exampleIsObjectId exampleEnv [alice]
     \<lparr>cookieToken = Some ''token-alice'', authorization = Some ''Bearer token-old''\<rparr>
     = (Next (withoutPassword alice),
        [JwtVerify ''token-alice'', UserFindById ''65a000000000000000000a11'']) \<and>
   protect exampleIsObjectId exampleEnv [alice]
     \<lparr>cookieToken = None, authorization = Some ''Bearer token-alice''\<rparr>
     = (Next (withoutPassword alice),
        [JwtVerify ''token-alice'', UserFindById ''65a000000000000000000a11'']) \<and>
   protect exampleIsObjectId exampleEnv [alice]
     \<lparr>cookieToken = None, authorization = Some ''Basic token-alice''\<rparr>
     = (Rejected (failure 401 PleaseLogin), []) \<and>
   protect exampleIsObjectId exampleEnv [alice] \<lparr>cookieToken = None, authorization = None\<rparr>
     = (Rejected (failure 401 PleaseLogin), [])"
proof -
  let ?p = "\<lparr>jwt_id = ''65a000000000000000000a11'', jwt_email = ''alice@example.org'',
              iat = 1000, exp = Some 2000\<rparr>"
  let ?r1 = "\<lparr>cookieToken = Some ''token-alice'', authorization = Some ''Bearer token-old''\<rparr>"
  let ?r2 = "\<lparr>cookieToken = None, authorization = Some ''Bearer token-alice''\<rparr>"
  let ?r3 = "\<lparr>cookieToken = None, authorization = Some ''Basic token-alice''\<rparr>"
  let ?r4 = "\<lparr>cookieToken = None, authorization = None :: string option\<rparr>"
  have o: "exampleIsObjectId (jwt_id ?p)" by (simp add: exampleIsObjectId_def)
  have f: "findUserById [alice] (jwt_id ?p) = Some alice" by (simp add: find_alice)
  have a1: "protect exampleIsObjectId exampleEnv [alice] ?r1 =
      (Next (withoutPassword alice), [JwtVerify ''token-alice'', UserFindById (jwt_id ?p)])"
    using protect_token_source
            [where req = ?r1 and t = "''token-alice''" and p = ?p and u = alice
               and isObjectId = exampleIsObjectId and env = exampleEnv and users = "[alice]"]
          verify_alice o f
    by (simp add: truthy_def)
  have a2: "protect exampleIsObjectId exampleEnv [alice] ?r2 =
      (Next (withoutPassword alice), [JwtVerify ''token-alice'', UserFindById (jwt_id ?p)])"
    using protect_token_source
            [where req = ?r2 and tok = "''token-alice''" and t = "''token-alice''" and p = ?p
               and u = alice and isObjectId = exampleIsObjectId and env = exampleEnv
               and users = "[alice]"]
          verify_alice o f
    by (simp add: truthy_def)
  have a3: "protect exampleIsObjectId exampleEnv [alice] ?r3 =
      (Rejected (failure 401 PleaseLogin), [])"
    using protect_token_source
            [where req = ?r3 and h = "''Basic token-alice''"
               and isObjectId = exampleIsObjectId and env = exampleEnv and users = "[alice]"]
    by (simp add: truthy_def startsWith_def)
  have a4: "protect exampleIsObjectId exampleEnv [alice] ?r4 =
      (Rejected (failure 401 PleaseLogin), [])"
    using protect_token_source
            [where req = ?r4 and isObjectId = exampleIsObjectId and env = exampleEnv
               and users = "[alice]"]
    by (simp add: truthy_def)
  from a1 a2 a3 a4 show ?thesis by simp
qed

text \<open>
  C10. With no token in the cookie and an Authorization header that starts with
  \<^verbatim>\<open>Bearer\<close> and has no space in it (the bare word \<^verbatim>\<open>Bearer\<close>, say), the
  second piece of the split does not exist: no token is extracted and the answer is the
  401 "please log in" response, not the invalid-token one, with no call made.
\<close>

theorem protect_bare_bearer:
  assumes "\<not> truthy (cookieToken req)" and "authorization req = Some h"
    and "startsWith h ''Bearer''" and "CHR '' '' \<notin> set h"
  shows "candidateToken req = None \<and>
         protect isObjectId env users req = (Rejected (failure 401 PleaseLogin), [])"
proof -
  have "split h (CHR '' '') = [h]"
    using assms(4) by (simp add: split_def splitAcc_no_sep)
  then have "candidateToken req = None"
    using assms(1,2) by (simp add: candidateToken_def)
  then show ?thesis by (simp add: protect_def truthy_def)
qed

theorem protect_bare_bearer_witness:
  "\<not> truthy (cookieToken \<lparr>cookieToken = None, authorization = Some ''Bearer''\<rparr>) \<and>
   startsWith ''Bearer'' ''Bearer'' \<and> CHR '' '' \<notin> set ''Bearer'' \<and>
   candidateToken \<lparr>cookieToken = None, authorization = Some ''Bearer''\<rparr> = None \<and>
   protect exampleIsObjectId exampleEnv [alice] \<lparr>cookieToken = None, authorization = Some ''Bearer''\<rparr>
     = (Rejected (failure 401 PleaseLogin), [])"
proof -
  let ?r = "\<lparr>cookieToken = None, authorization = Some ''Bearer''\<rparr>"
  have h1: "\<not> truthy (cookieToken ?r)" by (simp add: truthy_def)
  have h2: "authorization ?r = Some ''Bearer''" by simp
  have h3: "startsWith ''Bearer'' ''Bearer''" by (simp add: startsWith_def)
  have h4: "CHR '' '' \<notin> set ''Bearer''" by simp
  from protect_bare_bearer [OF h1 h2 h3 h4, of exampleIsObjectId exampleEnv "[alice]"] h1 h3 h4
  show ?thesis by blast
qed

text \<open>
  C7. Any two requests that the middleware rejects, for whatever reasons (no token, a
  token that does not verify, a verified token of a user that is gone), get the same
  status, 401. The witness shows the three reasons and that their messages differ.
\<close>

theorem protect_failures_same_status:
  assumes "protect i1 env1 users1 req1 = (Rejected r1, t1)"
    and "protect i2 env2 users2 req2 = (Rejected r2, t2)"
  shows "status r1 = 401 \<and> status r2 = 401 \<and> status r1 = status r2"
  using assms
  by (auto simp: protect_def failure_def Let_def split: if_splits sum.splits option.splits)

theorem protect_failures_same_status_witness:
  "protect exampleIsObjectId exampleEnv [bob] \<lparr>cookieToken = None, authorization = None\<rparr>
     = (Rejected (failure 401 PleaseLogin), []) \<and>
   protect exampleIsObjectId exampleEnv [bob] \<lparr>cookieToken = Some ''garbage'', authorization = None\<rparr>
     = (Rejected (failure 401 TokenInvalidOrExpired), [JwtVerify ''garbage'']) \<and>
   protect exampleIsObjectId exampleEnv [bob] \<lparr>cookieToken = Some ''token-alice'', authorization = None\<rparr>
     = (Rejected (failure 401 UserDoesNotExist),
        [JwtVerify ''token-alice'', UserFindById ''65a000000000000000000a11'']) \<and>
   status (failure 401 PleaseLogin) = status (failure 401 TokenInvalidOrExpired) \<and>
   status (failure 401 TokenInvalidOrExpired) = status (failure 401 UserDoesNotExist) \<and>
   message (failure 401 PleaseLogin) \<noteq> message (failure 401 UserDoesNotExist)"
proof -
  have h1: "protect exampleIsObjectId exampleEnv [bob] \<lparr>cookieToken = None, authorization = None\<rparr>
     = (Rejected (failure 401 PleaseLogin), [])"
    by (simp add: protect_def candidateToken_def truthy_def)
  have h2: "protect exampleIsObjectId exampleEnv [bob] \<lparr>cookieToken = Some ''garbage'', authorization = None\<rparr>
     = (Rejected (failure 401 TokenInvalidOrExpired), [JwtVerify ''garbage''])"
    by (simp add: protect_def candidateToken_def truthy_def jwt_verify_def exampleEnv_def)
  have h3: "protect exampleIsObjectId exampleEnv [bob] \<lparr>cookieToken = Some ''token-alice'', authorization = None\<rparr>
     = (Rejected (failure 401 UserDoesNotExist),
        [JwtVerify ''token-alice'', UserFindById ''65a000000000000000000a11''])"
    by (simp add: protect_def candidateToken_def truthy_def verify_alice exampleIsObjectId_def
        findUserById_def bob_def)
  have "message (failure 401 PleaseLogin) \<noteq> message (failure 401 UserDoesNotExist)"
    by (simp add: failure_def)
  with protect_failures_same_status [OF h1 h2] protect_failures_same_status [OF h2 h3] h1 h2 h3
  show ?thesis by blast
qed

text \<open>
  C8. A presented token that is malformed, or whose signature does not match, or whose
  expiry has passed (whether or not its signature matches), is answered with 401 and the
  "invalid or expired" message. The only call made is the one to the token library: the
  user store is not read, and the answer is the same over every user store.
\<close>

theorem protect_rejects_bad_token:
  assumes "candidateToken req = Some tok" and "tok \<noteq> []"
    and "decode env tok = None \<or> \<not> signatureOk env (secret env) tok \<or>
         (\<exists>p. decode env tok = Some p \<and> expired env p)"
  shows "protect isObjectId env users req =
           (Rejected (failure 401 TokenInvalidOrExpired), [JwtVerify tok]) \<and>
         protect isObjectId' env users' req = protect isObjectId env users req"
proof -
  have "\<exists>e. jwt_verify env tok = Inl e"
    using assms(3) by (auto simp: jwt_verify_def split: option.splits)
  then show ?thesis
    using assms(1,2) by (auto simp: protect_def truthy_def)
qed

theorem protect_rejects_bad_token_witness:
  "candidateToken \<lparr>cookieToken = Some ''token-old'', authorization = None\<rparr> = Some ''token-old'' \<and>
   signatureOk exampleEnv (secret exampleEnv) ''token-old'' \<and>
   (\<exists>p. decode exampleEnv ''token-old'' = Some p \<and> expired exampleEnv p) \<and>
   protect exampleIsObjectId exampleEnv [alice] \<lparr>cookieToken = Some ''token-old'', authorization = None\<rparr>
     = (Rejected (failure 401 TokenInvalidOrExpired), [JwtVerify ''token-old''])"
proof -
  let ?r = "\<lparr>cookieToken = Some ''token-old'', authorization = None\<rparr>"
  have h1: "candidateToken ?r = Some ''token-old''" by (simp add: candidateToken_def truthy_def)
  have h2: "''token-old'' \<noteq> []" by simp
  have s: "signatureOk exampleEnv (secret exampleEnv) ''token-old''" by (simp add: exampleEnv_def)
  have e: "\<exists>p. decode exampleEnv ''token-old'' = Some p \<and> expired exampleEnv p"
    by (simp add: exampleEnv_def expired_def)
  then have h3: "decode exampleEnv ''token-old'' = None \<or>
      \<not> signatureOk exampleEnv (secret exampleEnv) ''token-old'' \<or>
      (\<exists>p. decode exampleEnv ''token-old'' = Some p \<and> expired exampleEnv p)" by blast
  from protect_rejects_bad_token [OF h1 h2 h3, of exampleIsObjectId "[alice]"] h1 s e
  show ?thesis by blast
qed

section \<open>The password hook: results\<close>

text \<open>
  C3. The hook does not do what the claim says. On a save in which the password was not
  modified, the body calls \<^verbatim>\<open>next()\<close> once and then goes on, as it does when the
  password was modified: the hash is computed again, of what the document holds, which is
  already a hash, and the password of the document is replaced by it.
\<close>

theorem preSave_rehashes_unmodified:
  assumes "\<not> isModified d ''password''" and "password (doc d) = Some p"
  shows "preSave hash salt d =
           (1, Inr (d\<lparr>doc := (doc d)\<lparr>password := Some (hash p salt)\<rparr>,
                      modifiedPaths :=
                        (if hash p salt = p then modifiedPaths d
                         else List.insert ''password'' (modifiedPaths d))\<rparr>))"
  using assms by (simp add: preSave_def)

theorem preSave_rehashes_unmodified_witness:
  "\<not> isModified renamedAlice ''password'' \<and>
   password (doc renamedAlice) = Some ''$2a$10$storedhash'' \<and>
   preSave exampleHash ''salt'' renamedAlice =
     (1, Inr \<lparr>doc = alice\<lparr>name := ''Alice B'', password := Some ''salt#$2a$10$storedhash''\<rparr>,
              modifiedPaths = [''password'', ''name'']\<rparr>)"
proof -
  have h1: "\<not> isModified renamedAlice ''password''"
    by (simp add: isModified_def renamedAlice_def)
  have h2: "password (doc renamedAlice) = Some ''$2a$10$storedhash''"
    by (simp add: renamedAlice_def)
  from preSave_rehashes_unmodified [OF h1 h2, of exampleHash "''salt''"] h1 h2
  show ?thesis by (simp add: exampleHash_def renamedAlice_def)
qed

section \<open>Lookups by identifier and owner\<close>

lemmas ex_defs = exampleDb_def salaryTx_def foodTx_def bobTx_def alice_def bob_def

lemma example_unique: "uniqueIds exampleDb"
  by (simp add: uniqueIds_def ex_defs)

lemma same_id_same_doc:
  "uniqueIds db \<Longrightarrow> x \<in> set db \<Longrightarrow> t \<in> set db \<Longrightarrow> tid x = tid t \<Longrightarrow> x = t"
  unfolding uniqueIds_def by (meson distinct_map inj_onD)

lemma findOne_other_owner:
  assumes "uniqueIds db" and "t \<in> set db" and "user t \<noteq> b"
  shows "findOne db (tid t) b = None"
proof -
  have "\<not> (\<exists>x. x \<in> set db \<and> tid x = tid t \<and> user x = b)"
    using assms same_id_same_doc by blast
  then show ?thesis by (simp add: findOne_def find_None_iff)
qed

lemma findOne_without: "findOne (without db i) i b = None"
  by (simp add: findOne_def without_def find_None_iff)

lemma findOne_owner:
  assumes "uniqueIds db" and "t \<in> set db"
  shows "findOne db (tid t) (user t) = Some t"
proof -
  obtain x where x: "findOne db (tid t) (user t) = Some x"
    using assms(2) by (cases "findOne db (tid t) (user t)") (auto simp: findOne_def find_None_iff)
  then have "x \<in> set db \<and> tid x = tid t"
    by (auto simp: findOne_def find_Some_iff)
  then have "x = t" using assms same_id_same_doc by blast
  with x show ?thesis by simp
qed

lemma updateFirst_unique:
  "distinct (map g xs) \<Longrightarrow> t \<in> set xs \<Longrightarrow>
     updateFirst (\<lambda>x. g x = g t) f xs = map (\<lambda>x. if x = t then f x else x) xs"
proof (induction xs)
  case Nil
  then show ?case by simp
next
  case (Cons a xs)
  show ?case
  proof (cases "g a = g t")
    case True
    with Cons.prems have at: "a = t" by (auto simp: image_iff)
    with Cons.prems have "t \<notin> set xs" by auto
    then have "map (\<lambda>x. if x = t then f x else x) xs = xs"
      by (induction xs) auto
    with True at show ?thesis by simp
  next
    case False
    with Cons show ?thesis by auto
  qed
qed

lemma find_updated:
  "t \<in> set xs \<Longrightarrow> g (f t) = g t \<Longrightarrow> distinct (map g xs) \<Longrightarrow>
     find (\<lambda>x. g x = g t) (map (\<lambda>x. if x = t then f x else x) xs) = Some (f t)"
proof (induction xs)
  case Nil
  then show ?case by simp
next
  case (Cons a xs)
  then show ?case by (auto simp: image_iff)
qed

lemma tid_applyUpdate: "tid (applyUpdate b t) = tid t"
  by (simp add: applyUpdate_def)

text \<open>
  C1. Let a transaction \<open>t\<close> of the store belong to user \<open>a\<close>, and let \<open>b\<close>
  be another user. Reading, updating (with a body that passes the route's validators) and
  deleting under \<open>b\<close> with the identifier of \<open>t\<close> each answer 404 "not found" and
  leave the store as it was; and each answer is the one the same request gets from the
  store without \<open>t\<close>, where no document has that identifier.
\<close>

theorem cross_user_not_found:
  assumes "uniqueIds db" and "t \<in> set db" and "user t = uid a" and "uid b \<noteq> uid a"
    and "isObjectId (tid t)" and "validateUpdate body = []"
  shows "getTransaction isObjectId db b (tid t) = failure 404 TransactionNotFound \<and>
         updateTransaction isObjectId schemaAccepts db b (tid t) body =
           (failure 404 TransactionNotFound, db) \<and>
         deleteTransaction isObjectId db b (tid t) = (failure 404 TransactionNotFound, db) \<and>
         getTransaction isObjectId (without db (tid t)) b (tid t) =
           getTransaction isObjectId db b (tid t) \<and>
         fst (updateTransaction isObjectId schemaAccepts (without db (tid t)) b (tid t) body) =
           fst (updateTransaction isObjectId schemaAccepts db b (tid t) body) \<and>
         fst (deleteTransaction isObjectId (without db (tid t)) b (tid t)) =
           fst (deleteTransaction isObjectId db b (tid t))"
proof -
  have none: "findOne db (tid t) (uid b) = None"
    using assms(1-4) findOne_other_owner by metis
  have gone: "findOne (without db (tid t)) (tid t) (uid b) = None"
    by (rule findOne_without)
  show ?thesis
    using none gone assms(5,6)
    by (simp add: getTransaction_def updateTransaction_def deleteTransaction_def)
qed

theorem cross_user_not_found_witness:
  "uniqueIds exampleDb \<and> salaryTx \<in> set exampleDb \<and> user salaryTx = uid alice \<and>
   uid bob \<noteq> uid alice \<and> exampleIsObjectId (tid salaryTx) \<and> validateUpdate emptyBody = [] \<and>
   getTransaction exampleIsObjectId exampleDb bob (tid salaryTx) =
     failure 404 TransactionNotFound \<and>
   updateTransaction exampleIsObjectId (\<lambda>b. True) exampleDb bob (tid salaryTx) emptyBody =
     (failure 404 TransactionNotFound, exampleDb) \<and>
   deleteTransaction exampleIsObjectId exampleDb bob (tid salaryTx) =
     (failure 404 TransactionNotFound, exampleDb)"
proof -
  have h1: "uniqueIds exampleDb" by (rule example_unique)
  have h2: "salaryTx \<in> set exampleDb" by (simp add: exampleDb_def)
  have h3: "user salaryTx = uid alice" by (simp add: salaryTx_def alice_def)
  have h4: "uid bob \<noteq> uid alice" by (simp add: alice_def bob_def)
  have h5: "exampleIsObjectId (tid salaryTx)" by (simp add: exampleIsObjectId_def salaryTx_def)
  have h6: "validateUpdate emptyBody = []"
    by (simp add: validateUpdate_def emptyBody_def isIn_def isFloat_def isISO8601_def)
  from cross_user_not_found
         [where isObjectId = exampleIsObjectId and schemaAccepts = "\<lambda>b. True",
          OF h1 h2 h3 h4 h5 h6]
       h1 h2 h3 h4 h5 h6
  show ?thesis by blast
qed

text \<open>
  C9. An update by the owner, with a body that passes the route's validators and that
  the schema accepts, answers 200 with the merged document and replaces exactly that
  document in the store. In the merged document every path the body supplies has the
  body's value and every other path (owner, type, category, amount, description, date;
  also the identifier and the creation time, which a body cannot supply) has the value it
  had before.
\<close>

theorem update_merges:
  assumes "uniqueIds db" and "t \<in> set db" and "user t = uid u"
    and "isObjectId (tid t)" and "validateUpdate b = []" and "schemaAccepts b"
  shows "updateTransaction isObjectId schemaAccepts db u (tid t) b =
           (\<lparr>status = 200, success = True, message = Some UpdateSucceeded,
             payload = Doc (applyUpdate b t)\<rparr>,
            map (\<lambda>x. if x = t then applyUpdate b t else x) db) \<and>
         tid (applyUpdate b t) = tid t \<and>
         created (applyUpdate b t) = created t \<and>
         user (applyUpdate b t) = (case b_user b of None \<Rightarrow> user t | Some v \<Rightarrow> v) \<and>
         type (applyUpdate b t) = (case b_type b of None \<Rightarrow> type t | Some v \<Rightarrow> v) \<and>
         category (applyUpdate b t) = (case b_category b of None \<Rightarrow> category t | Some v \<Rightarrow> v) \<and>
         amount (applyUpdate b t) = (case b_amount b of Parsed v \<Rightarrow> v | _ \<Rightarrow> amount t) \<and>
         description (applyUpdate b t) =
           (case b_description b of None \<Rightarrow> description t | Some v \<Rightarrow> v) \<and>
         date (applyUpdate b t) = (case b_date b of Parsed v \<Rightarrow> v | _ \<Rightarrow> date t)"
proof -
  have d: "distinct (map tid db)" using assms(1) by (simp add: uniqueIds_def)
  have found: "findOne db (tid t) (uid u) = Some t"
    using assms(1-3) findOne_owner by metis
  have upd: "updateFirst (\<lambda>x. tid x = tid t) (applyUpdate b) db =
               map (\<lambda>x. if x = t then applyUpdate b x else x) db"
    using d assms(2) by (rule updateFirst_unique)
  have same: "map (\<lambda>x. if x = t then applyUpdate b x else x) db =
              map (\<lambda>x. if x = t then applyUpdate b t else x) db"
    by (rule map_cong) auto
  have ret: "find (\<lambda>x. tid x = tid t) (map (\<lambda>x. if x = t then applyUpdate b x else x) db) =
               Some (applyUpdate b t)"
    using find_updated [of t db tid "applyUpdate b"] assms(2) d tid_applyUpdate by simp
  have "updateTransaction isObjectId schemaAccepts db u (tid t) b =
           (\<lparr>status = 200, success = True, message = Some UpdateSucceeded,
             payload = Doc (applyUpdate b t)\<rparr>,
            map (\<lambda>x. if x = t then applyUpdate b t else x) db)"
    using found assms(4-6) upd ret same
    by (simp add: updateTransaction_def findByIdAndUpdate_def)
  then show ?thesis by (simp add: applyUpdate_def)
qed

theorem update_merges_witness:
  "uniqueIds exampleDb \<and> salaryTx \<in> set exampleDb \<and> user salaryTx = uid alice \<and>
   exampleIsObjectId (tid salaryTx) \<and> validateUpdate payRise = [] \<and>
   updateTransaction exampleIsObjectId (\<lambda>b. True) exampleDb alice (tid salaryTx) payRise =
     (\<lparr>status = 200, success = True, message = Some UpdateSucceeded,
       payload = Doc (salaryTx\<lparr>amount := 150, description := ''Pay rise''\<rparr>)\<rparr>,
      [salaryTx\<lparr>amount := 150, description := ''Pay rise''\<rparr>, foodTx, bobTx])"
proof -
  have h1: "uniqueIds exampleDb" by (rule example_unique)
  have h2: "salaryTx \<in> set exampleDb" by (simp add: exampleDb_def)
  have h3: "user salaryTx = uid alice" by (simp add: salaryTx_def alice_def)
  have h4: "exampleIsObjectId (tid salaryTx)" by (simp add: exampleIsObjectId_def salaryTx_def)
  have h5: "validateUpdate payRise = []"
    by (simp add: validateUpdate_def payRise_def emptyBody_def isIn_def isFloat_def isISO8601_def)
  have m: "applyUpdate payRise salaryTx = salaryTx\<lparr>amount := 150, description := ''Pay rise''\<rparr>"
    by (simp add: applyUpdate_def payRise_def emptyBody_def salaryTx_def)
  have l: "map (\<lambda>x. if x = salaryTx then applyUpdate payRise salaryTx else x) exampleDb =
           [salaryTx\<lparr>amount := 150, description := ''Pay rise''\<rparr>, foodTx, bobTx]"
    by (simp add: m exampleDb_def) (simp add: salaryTx_def foodTx_def bobTx_def)
  from update_merges
         [where isObjectId = exampleIsObjectId and schemaAccepts = "\<lambda>b. True",
          OF h1 h2 h3 h4 h5]
       h1 h2 h3 h4 h5
  show ?thesis by (simp add: m l)
qed

section \<open>Listing: validation, pages\<close>

lemma validateList_parts:
  assumes "validateList q = []"
  shows "isInt (q_page q) 1 None" and "isInt (q_limit q) 1 (Some 100)"
    and "isIn (q_type q) [''thu'', ''chi'']" and "acceptedDate (q_startDate q)"
    and "acceptedDate (q_endDate q)"
    and "isIn (q_sort q) [''date'', ''-date'', ''amount'', ''-amount'']"
  using assms by (auto simp: validateList_def split: if_splits)

lemma pageOf_valid: "validateList q = [] \<Longrightarrow> 1 \<le> pageOf q"
  by (drule validateList_parts(1)) (auto simp: pageOf_def parseIntOr_def isInt_def split: raw.splits)

lemma limitOf_valid: "validateList q = [] \<Longrightarrow> 1 \<le> limitOf q \<and> limitOf q \<le> 100"
  by (drule validateList_parts(2)) (auto simp: limitOf_def parseIntOr_def isInt_def split: raw.splits)

lemma length_sortDocs: "length (sortDocs k xs) = length xs"
  by (simp add: sortDocs_def)

lemma listTransactions_valid:
  assumes "validateList q = []" and "requestError regex trim u q = None"
  shows "listTransactions regex trim db u q =
           \<lparr>status = 200, success = True, message = None,
            payload =
              Listing
                (length (take (nat (limitOf q)) (drop (nat ((pageOf q - 1) * limitOf q))
                   (sortDocs (sortOf q) (matched regex trim db u q)))))
                (length (matched regex trim db u q))
                (pageOf q)
                \<lceil>rat_of_nat (length (matched regex trim db u q)) / rat_of_int (limitOf q)\<rceil>
                (take (nat (limitOf q)) (drop (nat ((pageOf q - 1) * limitOf q))
                   (sortDocs (sortOf q) (matched regex trim db u q))))\<rparr>"
proof -
  have "pageOf (sanitize trim q) = pageOf q" "limitOf (sanitize trim q) = limitOf q"
    "sortOf (sanitize trim q) = sortOf q"
    by (simp_all add: sanitize_def pageOf_def limitOf_def sortOf_def)
  then show ?thesis
    using assms by (simp add: listTransactions_def matched_def requestError_def Let_def)
qed

lemma listTransactions_thrown:
  assumes "validateList q = []" and "requestError regex trim u q = Some e"
  shows "listTransactions regex trim db u q = thrownResponse ListFailed e"
  using assms by (simp add: listTransactions_def requestError_def Let_def)

lemma listTransactions_data:
  assumes "validateList q = []" and "requestError regex trim u q = None"
  shows "dataOf (listTransactions regex trim db u q) = pageCut q (matched regex trim db u q)"
    and "totalOf (listTransactions regex trim db u q) = length (matched regex trim db u q)"
  using listTransactions_valid [OF assms, of db] by (simp_all add: dataOf_def totalOf_def pageCut_def)

lemma concat_pages_nat:
  "concat (map (\<lambda>k. take p (drop (k * p) xs)) [0..<n]) = take (n * p) xs"
proof (induction n)
  case 0
  then show ?case by simp
next
  case (Suc n)
  have "take (n * p) xs @ take p (drop (n * p) xs) = take (n * p + p) xs"
    by (simp add: take_add)
  with Suc show ?case by (simp add: add.commute)
qed

lemma upto_as_map: "[1..int n] = map (\<lambda>k. int k + 1) [0..<n]"
proof (induction n)
  case 0
  then show ?case by simp
next
  case (Suc n)
  have "[1..int (Suc n)] = [1..int n] @ [int n + 1]"
    using upto_rec2 [of 1 "int n + 1"] by (simp add: add.commute)
  with Suc show ?case by simp
qed

lemma concat_pages:
  assumes "0 \<le> n"
  shows "concat (map (\<lambda>k. take p (drop (nat ((k - 1) * int p)) xs)) [1..n]) = take (nat n * p) xs"
proof -
  have "[1..n] = map (\<lambda>k. int k + 1) [0..<nat n]"
    using upto_as_map [of "nat n"] assms by simp
  then have "concat (map (\<lambda>k. take p (drop (nat ((k - 1) * int p)) xs)) [1..n]) =
             concat (map (\<lambda>k. take p (drop (k * p) xs)) [0..<nat n])"
    by (simp add: comp_def nat_mult_distrib flip: of_nat_mult)
  then show ?thesis by (simp add: concat_pages_nat)
qed

lemma pages_cover:
  assumes "1 \<le> p"
  shows "0 \<le> \<lceil>rat_of_nat n / rat_of_int p\<rceil> \<and> n \<le> nat \<lceil>rat_of_nat n / rat_of_int p\<rceil> * nat p"
proof -
  let ?c = "\<lceil>rat_of_nat n / rat_of_int p\<rceil>"
  have pos: "0 < rat_of_int p" using assms by simp
  have "0 \<le> rat_of_nat n / rat_of_int p" using assms by simp
  then have c0: "0 \<le> ?c" by (simp add: ceiling_le_iff zero_le_ceiling)
  have "rat_of_nat n / rat_of_int p \<le> rat_of_int ?c" by (rule le_of_int_ceiling)
  then have "rat_of_nat n \<le> rat_of_int ?c * rat_of_int p"
    using pos pos_divide_le_eq [of "rat_of_int p" "rat_of_nat n" "rat_of_int ?c"] by blast
  then have "rat_of_int (int n) \<le> rat_of_int (?c * p)" by simp
  then have "int n \<le> ?c * p" by (simp only: of_int_le_iff)
  then have "n \<le> nat (?c * p)" by simp
  also have "nat (?c * p) = nat ?c * nat p" using c0 by (simp add: nat_mult_distrib)
  finally show ?thesis using c0 by simp
qed

lemma onePerPage_valid: "validateList onePerPage = []"
  by (simp add: validateList_def onePerPage_def noFilters_def isInt_def isIn_def acceptedDate_def)

lemma onePerPage_runs: "requestError exampleRegex exampleTrim alice onePerPage = None"
  by (simp add: requestError_def queryError_def invalidBound_def buildQuery_def sanitize_def
      onePerPage_def noFilters_def truthy_def)

lemma onePerPage_exact: "exactArithmetic onePerPage exampleDb"
  by (simp add: exactArithmetic_def maxSafeInteger_def pageOf_def limitOf_def parseIntOr_def
      onePerPage_def noFilters_def exampleDb_def)

lemma onePerPage_matched:
  "matched exampleRegex exampleTrim exampleDb alice onePerPage = [salaryTx, foodTx]"
  by (simp add: matched_def findDocs_def matches_def buildQuery_def sanitize_def onePerPage_def
      noFilters_def truthy_def truthyValue_def categoryMatches_def dateInRange_def
      searchMatches_def ex_defs)

lemma onePerPage_sorted: "sortDocs (sortOf onePerPage) [salaryTx, foodTx] = [foodTx, salaryTx]"
  by (simp add: sortOf_def onePerPage_def noFilters_def truthy_def sortDocs_def salaryTx_def foodTx_def)

text \<open>
  C4. For a request that passes validation, whose query the store can run (no date bound
  is Invalid Date, the search pattern is a regular expression) and whose numbers are in
  the range of exact arithmetic: the response is 200 and its data are the matched
  documents, sorted, with \<open>(page - 1) * limit\<close> of them skipped and at most
  \<open>limit\<close> taken; \<open>total\<close> is the number of matched documents, whatever the
  page; \<open>pages\<close> is the ceiling of \<open>total / limit\<close>; an absent page is page 1
  and an absent limit is 10; and the data of the pages 1 to \<open>pages\<close>, one after the
  other, are the whole sorted list of matched documents, each document at its place
  once.
\<close>

theorem pagination:
  assumes "validateList q = []" and "requestError regex trim u q = None"
    and "exactArithmetic q db"
  shows "listTransactions regex trim db u q =
           \<lparr>status = 200, success = True, message = None,
            payload =
              Listing
                (length (take (nat (limitOf q)) (drop (nat ((pageOf q - 1) * limitOf q))
                   (sortDocs (sortOf q) (matched regex trim db u q)))))
                (length (matched regex trim db u q))
                (pageOf q)
                \<lceil>rat_of_nat (length (matched regex trim db u q)) / rat_of_int (limitOf q)\<rceil>
                (take (nat (limitOf q)) (drop (nat ((pageOf q - 1) * limitOf q))
                   (sortDocs (sortOf q) (matched regex trim db u q))))\<rparr> \<and>
         (if q_page q = Absent then pageOf q = 1 else q_page q = Parsed (pageOf q)) \<and>
         (if q_limit q = Absent then limitOf q = 10 else q_limit q = Parsed (limitOf q)) \<and>
         concat (map (\<lambda>k. dataOf (listTransactions regex trim db u (q\<lparr>q_page := Parsed k\<rparr>)))
                   [1..pagesOf (listTransactions regex trim db u q)]) =
           sortDocs (sortOf q) (matched regex trim db u q)"
proof -
  let ?full = "sortDocs (sortOf q) (matched regex trim db u q)"
  let ?P = "limitOf q"
  let ?n = "\<lceil>rat_of_nat (length (matched regex trim db u q)) / rat_of_int ?P\<rceil>"
  have P: "1 \<le> ?P" using assms(1) limitOf_valid by blast
  have resp: "listTransactions regex trim db u q =
           \<lparr>status = 200, success = True, message = None,
            payload =
              Listing
                (length (take (nat ?P) (drop (nat ((pageOf q - 1) * ?P)) ?full)))
                (length (matched regex trim db u q))
                (pageOf q) ?n
                (take (nat ?P) (drop (nat ((pageOf q - 1) * ?P)) ?full))\<rparr>"
    using assms(1,2) by (rule listTransactions_valid)
  have pg: "if q_page q = Absent then pageOf q = 1 else q_page q = Parsed (pageOf q)"
    using validateList_parts(1) [OF assms(1)]
    by (auto simp: pageOf_def parseIntOr_def isInt_def split: raw.splits)
  have lm: "if q_limit q = Absent then limitOf q = 10 else q_limit q = Parsed (limitOf q)"
    using validateList_parts(2) [OF assms(1)]
    by (auto simp: limitOf_def parseIntOr_def isInt_def split: raw.splits)
  have pages: "pagesOf (listTransactions regex trim db u q) = ?n"
    by (simp add: resp pagesOf_def)
  have page_k: "dataOf (listTransactions regex trim db u (q\<lparr>q_page := Parsed k\<rparr>)) =
                  take (nat ?P) (drop (nat ((k - 1) * int (nat ?P))) ?full)"
    if "k \<in> set [1..?n]" for k
  proof -
    have k: "1 \<le> k" using that by simp
    let ?q = "q\<lparr>q_page := Parsed k\<rparr>"
    have v: "validateList ?q = []"
      using assms(1) k by (auto simp: validateList_def isInt_def split: if_splits)
    have same: "requestError regex trim u ?q = requestError regex trim u q"
      "limitOf ?q = ?P" "sortOf ?q = sortOf q"
      "matched regex trim db u ?q = matched regex trim db u q"
      by (simp_all add: requestError_def buildQuery_def sanitize_def limitOf_def sortOf_def
          matched_def)
    have pk: "pageOf ?q = k" using k by (simp add: pageOf_def parseIntOr_def)
    have "requestError regex trim u ?q = None"
      using assms(2) same(1) by simp
    from listTransactions_valid [OF v this, of db] show ?thesis
      using P by (simp add: dataOf_def same pk)
  qed
  have "concat (map (\<lambda>k. dataOf (listTransactions regex trim db u (q\<lparr>q_page := Parsed k\<rparr>))) [1..?n]) =
        concat (map (\<lambda>k. take (nat ?P) (drop (nat ((k - 1) * int (nat ?P))) ?full)) [1..?n])"
    using page_k by (intro arg_cong [where f = concat] map_cong) auto
  also have "\<dots> = take (nat ?n * nat ?P) ?full"
    using pages_cover [OF P] by (intro concat_pages) simp
  also have "\<dots> = ?full"
    using pages_cover [OF P, of "length (matched regex trim db u q)"]
    by (simp add: length_sortDocs)
  finally show ?thesis using resp pg lm pages by simp
qed

theorem pagination_witness:
  "validateList onePerPage = [] \<and>
   requestError exampleRegex exampleTrim alice onePerPage = None \<and>
   exactArithmetic onePerPage exampleDb \<and>
   listTransactions exampleRegex exampleTrim exampleDb alice onePerPage =
     \<lparr>status = 200, success = True, message = None, payload = Listing 1 2 1 2 [foodTx]\<rparr> \<and>
   concat (map (\<lambda>k. dataOf (listTransactions exampleRegex exampleTrim exampleDb alice
                               (onePerPage\<lparr>q_page := Parsed k\<rparr>))) [1..2]) =
     [foodTx, salaryTx]"
proof -
  have p: "pageOf onePerPage = 1" "limitOf onePerPage = 1"
    by (simp_all add: pageOf_def limitOf_def parseIntOr_def onePerPage_def noFilters_def)
  note F = pagination [OF onePerPage_valid onePerPage_runs onePerPage_exact]
  have r: "listTransactions exampleRegex exampleTrim exampleDb alice onePerPage =
     \<lparr>status = 200, success = True, message = None, payload = Listing 1 2 1 2 [foodTx]\<rparr>"
    using F by (simp add: onePerPage_matched onePerPage_sorted p)
  have n: "pagesOf (listTransactions exampleRegex exampleTrim exampleDb alice onePerPage) = 2"
    by (simp add: r pagesOf_def)
  have c: "concat (map (\<lambda>k. dataOf (listTransactions exampleRegex exampleTrim exampleDb alice
                               (onePerPage\<lparr>q_page := Parsed k\<rparr>))) [1..2]) =
            [foodTx, salaryTx]"
    using F unfolding n by (simp add: onePerPage_matched onePerPage_sorted)
  with c r onePerPage_valid onePerPage_runs onePerPage_exact show ?thesis by simp
qed

section \<open>Listing: the filters\<close>

lemma no_error_dates:
  assumes "validateList q = []" and "requestError regex trim u q = None"
  shows "q_startDate q = NoDate \<or> (\<exists>d1. q_startDate q = DateString True (DateAt d1))"
    and "q_endDate q = NoDate \<or> (\<exists>d2. q_endDate q = DateString True (DateAt d2))"
proof -
  have a: "acceptedDate (q_startDate q)" "acceptedDate (q_endDate q)"
    using assms(1) by (rule validateList_parts)+
  have b: "\<not> invalidBound (m_date (buildQuery (uid u) (sanitize trim q)))"
    using assms(2) by (auto simp: requestError_def queryError_def split: if_splits)
  show "q_startDate q = NoDate \<or> (\<exists>d1. q_startDate q = DateString True (DateAt d1))"
    using a(1) b
    by (cases "q_startDate q"; cases "q_endDate q")
       (auto simp: acceptedDate_def invalidBound_def buildQuery_def sanitize_def newDate_def
          intro: js_date.exhaust)
  show "q_endDate q = NoDate \<or> (\<exists>d2. q_endDate q = DateString True (DateAt d2))"
    using a(2) b
    by (cases "q_startDate q"; cases "q_endDate q")
       (auto simp: acceptedDate_def invalidBound_def buildQuery_def sanitize_def newDate_def
          intro: js_date.exhaust)
qed

lemma matches_dates:
  assumes "q_startDate q = NoDate \<or> (\<exists>d1. q_startDate q = DateString True (DateAt d1))"
    and "q_endDate q = NoDate \<or> (\<exists>d2. q_endDate q = DateString True (DateAt d2))"
  shows "matches regex (buildQuery i (sanitize trim q)) t =
           (matches regex (buildQuery i (sanitize trim (withoutDates q))) t \<and>
            (case q_startDate q of DateString ok (DateAt d1) \<Rightarrow> d1 \<le> date t | _ \<Rightarrow> True) \<and>
            (case q_endDate q of DateString ok (DateAt d2) \<Rightarrow> date t \<le> d2 | _ \<Rightarrow> True))"
  using assms
  by (auto simp: matches_def buildQuery_def sanitize_def withoutDates_def dateInRange_def
      atOrAfter_def atOrBefore_def newDate_def)

lemma matches_owner_only:
  assumes "q_type q = None" and "q_category q = None" and "q_search q = None"
    and "q_startDate q = NoDate" and "q_endDate q = NoDate"
  shows "matches regex (buildQuery i (sanitize trim q)) t = (user t = i)"
  using assms
  by (simp add: matches_def buildQuery_def sanitize_def dateInRange_def searchMatches_def
      categoryMatches_def truthyValue_def truthy_def)

lemma matches_category:
  assumes "q_category q = Some v" and "truthyValue (Some (trimValue trim v))"
  shows "matches regex (buildQuery i (sanitize trim q)) t =
           (matches regex (buildQuery i (sanitize trim (withoutCategory q))) t \<and>
            (case v of
               Single c \<Rightarrow> category t = trim c
             | Repeated cs \<Rightarrow> category t \<in> set (map trim cs)))"
  using assms
  by (cases v)
     (auto simp: matches_def buildQuery_def sanitize_def withoutCategory_def truthyValue_def
        trimValue_def categoryMatches_def)

lemma owned_only: "set (matched regex trim db u q) \<subseteq> {t. user t = uid u}"
  by (auto simp: matched_def findDocs_def matches_def buildQuery_def)

lemma january_valid: "validateList january16To20 = []"
  by (simp add: validateList_def january16To20_def noFilters_def isInt_def isIn_def acceptedDate_def)

lemma january_runs: "requestError exampleRegex exampleTrim alice january16To20 = None"
  by (simp add: requestError_def queryError_def invalidBound_def buildQuery_def sanitize_def
      january16To20_def noFilters_def truthy_def newDate_def)

lemma january_exact: "exactArithmetic january16To20 exampleDb"
  by (simp add: exactArithmetic_def maxSafeInteger_def pageOf_def limitOf_def parseIntOr_def
      january16To20_def noFilters_def exampleDb_def)

lemma fromWeek3_valid: "validateList fromWeek3 = []"
  by (simp add: validateList_def fromWeek3_def noFilters_def isInt_def isIn_def acceptedDate_def)

text \<open>
  The date filter on bounds that \<^verbatim>\<open>new Date\<close> can read. For a request that passes
  validation and whose query the store can run, each bound is absent or an instant, and
  the matched documents are those that the same request without its date bounds matches
  and whose date is at or after the start bound, when there is one, and at or before the
  end bound, when there is one: each bound constrains its own side only, both ends are
  inclusive, and without bounds nothing is filtered by date. With no other filter the
  request without bounds matches exactly the documents of the acting user. The response
  counts these documents and returns a page of them. The example has a transaction dated
  exactly at the end bound.
\<close>

lemma date_range_filter:
  assumes "validateList q = []" and "requestError regex trim u q = None"
    and "exactArithmetic q db"
  shows "matched regex trim db u q =
           filter (\<lambda>t. (case q_startDate q of DateString ok (DateAt d1) \<Rightarrow> d1 \<le> date t | _ \<Rightarrow> True) \<and>
                       (case q_endDate q of DateString ok (DateAt d2) \<Rightarrow> date t \<le> d2 | _ \<Rightarrow> True))
             (matched regex trim db u (withoutDates q)) \<and>
         (if q_type q = None \<and> q_category q = None \<and> q_search q = None
          then matched regex trim db u (withoutDates q) = filter (\<lambda>t. user t = uid u) db
          else set (matched regex trim db u (withoutDates q)) \<subseteq> {t. user t = uid u}) \<and>
         (q_startDate q = NoDate \<or> (\<exists>d1. q_startDate q = DateString True (DateAt d1))) \<and>
         (q_endDate q = NoDate \<or> (\<exists>d2. q_endDate q = DateString True (DateAt d2))) \<and>
         dataOf (listTransactions regex trim db u q) = pageCut q (matched regex trim db u q) \<and>
         totalOf (listTransactions regex trim db u q) = length (matched regex trim db u q)"
proof -
  note d = no_error_dates [OF assms(1,2)]
  have a: "matched regex trim db u q =
           filter (\<lambda>t. (case q_startDate q of DateString ok (DateAt d1) \<Rightarrow> d1 \<le> date t | _ \<Rightarrow> True) \<and>
                       (case q_endDate q of DateString ok (DateAt d2) \<Rightarrow> date t \<le> d2 | _ \<Rightarrow> True))
             (matched regex trim db u (withoutDates q))"
    unfolding matched_def findDocs_def filter_filter
    by (rule filter_cong [OF refl]) (use matches_dates [OF d] in blast)
  have b: "matched regex trim db u (withoutDates q) = filter (\<lambda>t. user t = uid u) db"
    if "q_type q = None \<and> q_category q = None \<and> q_search q = None"
    unfolding matched_def findDocs_def
    by (rule filter_cong [OF refl], rule matches_owner_only)
       (use that in \<open>simp_all add: withoutDates_def\<close>)
  show ?thesis
    using a b owned_only d listTransactions_data [OF assms(1,2), of db] by simp
qed

lemma date_range_filter_example:
  "matched exampleRegex exampleTrim exampleDb alice (withoutDates january16To20) = [salaryTx, foodTx] \<and>
   matched exampleRegex exampleTrim exampleDb alice january16To20 = [foodTx] \<and>
   date foodTx = 1705708800000 \<and>
   dataOf (listTransactions exampleRegex exampleTrim exampleDb alice january16To20) = [foodTx] \<and>
   totalOf (listTransactions exampleRegex exampleTrim exampleDb alice january16To20) = 1"
proof -
  have f: "filter (\<lambda>t. user t = uid alice) exampleDb = [salaryTx, foodTx]"
    by (simp add: ex_defs)
  have n: "q_type january16To20 = None \<and> q_category january16To20 = None \<and>
           q_search january16To20 = None"
    by (simp add: january16To20_def noFilters_def)
  have b: "q_startDate january16To20 = DateString True (DateAt 1705363200000)"
    "q_endDate january16To20 = DateString True (DateAt 1705708800000)"
    by (simp_all add: january16To20_def)
  have d: "date foodTx = 1705708800000" "date salaryTx = 1705276800000"
    by (simp_all add: foodTx_def salaryTx_def)
  have p: "pageCut january16To20 [foodTx] = [foodTx]"
    by (simp add: pageCut_def pageOf_def limitOf_def parseIntOr_def sortOf_def sortDocs_def
        january16To20_def noFilters_def truthy_def)
  note F = date_range_filter [OF january_valid january_runs january_exact]
  have w: "matched exampleRegex exampleTrim exampleDb alice (withoutDates january16To20) =
             [salaryTx, foodTx]"
    using F by (simp add: n f)
  have m: "matched exampleRegex exampleTrim exampleDb alice january16To20 = [foodTx]"
    using F by (simp add: w b d)
  have "dataOf (listTransactions exampleRegex exampleTrim exampleDb alice january16To20) = [foodTx]"
    and "totalOf (listTransactions exampleRegex exampleTrim exampleDb alice january16To20) = 1"
    using F by (simp_all add: m p)
  with w m d show ?thesis by simp
qed

text \<open>
  C5. The handler does not do what the claim says for every date range the validators let
  through. A bound that \<^verbatim>\<open>isISO8601\<close> accepts and \<^verbatim>\<open>new Date\<close> reads as
  Invalid Date (an ISO 8601 week date or ordinal date) makes the query throw, and the
  handler answers 500 from its \<^verbatim>\<open>catch\<close> instead of the transactions in the
  range.
\<close>

theorem date_bound_unreadable:
  assumes "validateList q = []"
    and "q_startDate q = DateString True InvalidDate \<or> q_endDate q = DateString True InvalidDate"
  shows "listTransactions regex trim db u q = thrownResponse ListFailed CastError"
proof -
  have "requestError regex trim u q = Some CastError"
    using assms(2)
    by (auto simp: requestError_def queryError_def invalidBound_def buildQuery_def sanitize_def
        newDate_def)
  with assms(1) show ?thesis by (rule listTransactions_thrown)
qed

theorem date_bound_unreadable_witness:
  "validateList fromWeek3 = [] \<and>
   q_startDate fromWeek3 = DateString True InvalidDate \<and>
   listTransactions exampleRegex exampleTrim exampleDb alice fromWeek3 =
     \<lparr>status = 500, success = False, message = Some ListFailed, payload = Diagnostic CastError\<rparr> \<and>
   filter (\<lambda>t. user t = uid alice) exampleDb = [salaryTx, foodTx]"
proof -
  have s: "q_startDate fromWeek3 = DateString True InvalidDate" by (simp add: fromWeek3_def)
  then have h: "q_startDate fromWeek3 = DateString True InvalidDate \<or>
                q_endDate fromWeek3 = DateString True InvalidDate" by simp
  have f: "filter (\<lambda>t. user t = uid alice) exampleDb = [salaryTx, foodTx]"
    by (simp add: ex_defs)
  from date_bound_unreadable [OF fromWeek3_valid h, of exampleRegex exampleTrim exampleDb alice]
    fromWeek3_valid s f
  show ?thesis by (simp add: thrownResponse_def)
qed

lemma ex_valid: "validateList (noFilters\<lparr>q_category := Some (Single ''sal'')\<rparr>) = []"
  by (simp add: validateList_def noFilters_def isInt_def isIn_def acceptedDate_def)

lemma trim_sal: "exampleTrim ''sal'' = ''sal''"
  by (simp add: exampleTrim_def isSpace_def)

lemma spec_side: "specCategoryListing exampleDb alice ''sal'' = [salaryTx]"
  by (simp add: specCategoryListing_def exampleDb_def alice_def salaryTx_def foodTx_def bobTx_def
      specCategoryMatch_def toLower_def startsWith_def)

lemma code_side:
  "dataOf (listTransactions exampleRegex exampleTrim exampleDb alice
             (noFilters\<lparr>q_category := Some (Single ''sal'')\<rparr>)) = []"
  by (simp add: listTransactions_def ex_valid sanitize_def trimValue_def noFilters_def trim_sal
      pageOf_def limitOf_def parseIntOr_def sortOf_def truthy_def truthyValue_def buildQuery_def
      queryError_def invalidBound_def categoryMatches_def
      findDocs_def matches_def exampleDb_def alice_def salaryTx_def foodTx_def bobTx_def
      sortDocs_def dataOf_def Let_def)

lemma food_valid: "validateList foodOnly = []"
  by (simp add: validateList_def foodOnly_def noFilters_def isInt_def isIn_def acceptedDate_def)

lemma food_runs: "requestError exampleRegex exampleTrim alice foodOnly = None"
  by (simp add: requestError_def queryError_def invalidBound_def buildQuery_def sanitize_def
      foodOnly_def noFilters_def truthy_def)

lemma food_exact: "exactArithmetic foodOnly exampleDb"
  by (simp add: exactArithmetic_def maxSafeInteger_def pageOf_def limitOf_def parseIntOr_def
      foodOnly_def noFilters_def exampleDb_def)

lemma food_trim: "exampleTrim '' Food '' = ''Food''"
  by (simp add: exampleTrim_def isSpace_def)

lemma both_valid: "validateList foodOrSalary = []"
  by (simp add: validateList_def foodOrSalary_def noFilters_def isInt_def isIn_def acceptedDate_def)

lemma both_runs: "requestError exampleRegex exampleTrim alice foodOrSalary = None"
  by (simp add: requestError_def queryError_def invalidBound_def buildQuery_def sanitize_def
      foodOrSalary_def noFilters_def truthy_def)

lemma both_exact: "exactArithmetic foodOrSalary exampleDb"
  by (simp add: exactArithmetic_def maxSafeInteger_def pageOf_def limitOf_def parseIntOr_def
      foodOrSalary_def noFilters_def exampleDb_def)

text \<open>
  C2, as the claim states it, fails: Alice has a transaction of category
  \<^verbatim>\<open>Salary\<close>; her request with the category filter \<^verbatim>\<open>sal\<close> returns nothing,
  while the case-insensitive substring reading of the spec would return that
  transaction.
\<close>

theorem category_filter_counterexample:
  "dataOf (listTransactions exampleRegex exampleTrim exampleDb alice
             (noFilters\<lparr>q_category := Some (Single ''sal'')\<rparr>))
     \<noteq> specCategoryListing exampleDb alice ''sal''"
  by (simp add: code_side spec_side)

text \<open>
  C2, amended. Take a request that passes validation, whose query the store can run,
  whose numbers are in the range of exact arithmetic and whose category filter is truthy
  after the sanitizer (a text that is not empty once trimmed, or a repeated parameter).
  Its matched documents are those that the same request without the category filter
  matches and whose category is equal, character for character, to the trimmed filter
  value, or to one of the trimmed values when the parameter is repeated. With no other
  filter the request without the category filter matches exactly the documents of the
  acting user. The response counts the matched documents and returns a page of them.
\<close>

theorem category_filter_exact:
  assumes "validateList q = []" and "requestError regex trim u q = None"
    and "exactArithmetic q db"
    and "q_category q = Some v" and "truthyValue (Some (trimValue trim v))"
  shows "matched regex trim db u q =
           filter (\<lambda>t. case v of
                         Single c \<Rightarrow> category t = trim c
                       | Repeated cs \<Rightarrow> category t \<in> set (map trim cs))
             (matched regex trim db u (withoutCategory q)) \<and>
         (if q_type q = None \<and> q_search q = None \<and> q_startDate q = NoDate \<and> q_endDate q = NoDate
          then matched regex trim db u (withoutCategory q) = filter (\<lambda>t. user t = uid u) db
          else set (matched regex trim db u (withoutCategory q)) \<subseteq> {t. user t = uid u}) \<and>
         dataOf (listTransactions regex trim db u q) = pageCut q (matched regex trim db u q) \<and>
         totalOf (listTransactions regex trim db u q) = length (matched regex trim db u q)"
proof -
  have a: "matched regex trim db u q =
           filter (\<lambda>t. case v of
                         Single c \<Rightarrow> category t = trim c
                       | Repeated cs \<Rightarrow> category t \<in> set (map trim cs))
             (matched regex trim db u (withoutCategory q))"
    unfolding matched_def findDocs_def filter_filter
    by (rule filter_cong [OF refl]) (use matches_category [OF assms(4,5)] in blast)
  have b: "matched regex trim db u (withoutCategory q) = filter (\<lambda>t. user t = uid u) db"
    if "q_type q = None \<and> q_search q = None \<and> q_startDate q = NoDate \<and> q_endDate q = NoDate"
    unfolding matched_def findDocs_def
    by (rule filter_cong [OF refl], rule matches_owner_only)
       (use that in \<open>simp_all add: withoutCategory_def\<close>)
  show ?thesis
    using a b owned_only listTransactions_data [OF assms(1,2), of db] by simp
qed

theorem category_filter_exact_witness:
  "validateList foodOnly = [] \<and>
   requestError exampleRegex exampleTrim alice foodOnly = None \<and>
   exactArithmetic foodOnly exampleDb \<and>
   q_category foodOnly = Some (Single '' Food '') \<and>
   truthyValue (Some (trimValue exampleTrim (Single '' Food ''))) \<and>
   matched exampleRegex exampleTrim exampleDb alice foodOnly = [foodTx] \<and>
   dataOf (listTransactions exampleRegex exampleTrim exampleDb alice foodOnly) = [foodTx] \<and>
   totalOf (listTransactions exampleRegex exampleTrim exampleDb alice foodOnly) = 1 \<and>
   matched exampleRegex exampleTrim exampleDb alice foodOrSalary = [salaryTx, foodTx]"
proof -
  have c: "q_category foodOnly = Some (Single '' Food '')" by (simp add: foodOnly_def)
  have t: "truthyValue (Some (trimValue exampleTrim (Single '' Food '')))"
    by (simp add: truthyValue_def trimValue_def food_trim)
  have c2: "q_category foodOrSalary = Some (Repeated [''Food'', ''Salary''])"
    by (simp add: foodOrSalary_def)
  have t2: "truthyValue (Some (trimValue exampleTrim (Repeated [''Food'', ''Salary''])))"
    by (simp add: truthyValue_def trimValue_def)
  have tr: "exampleTrim ''Food'' = ''Food''" "exampleTrim ''Salary'' = ''Salary''"
    by (simp_all add: exampleTrim_def isSpace_def)
  have f: "filter (\<lambda>t. user t = uid alice) exampleDb = [salaryTx, foodTx]"
    by (simp add: ex_defs)
  have n: "q_type foodOnly = None \<and> q_search foodOnly = None \<and>
           q_startDate foodOnly = NoDate \<and> q_endDate foodOnly = NoDate"
    "q_type foodOrSalary = None \<and> q_search foodOrSalary = None \<and>
           q_startDate foodOrSalary = NoDate \<and> q_endDate foodOrSalary = NoDate"
    by (simp_all add: foodOnly_def foodOrSalary_def noFilters_def)
  have k: "category salaryTx = ''Salary''" "category foodTx = ''Food''"
    by (simp_all add: salaryTx_def foodTx_def)
  have p: "pageCut foodOnly [foodTx] = [foodTx]"
    by (simp add: pageCut_def pageOf_def limitOf_def parseIntOr_def sortOf_def sortDocs_def
        foodOnly_def noFilters_def truthy_def)
  note F = category_filter_exact [OF food_valid food_runs food_exact c t]
  note G = category_filter_exact [OF both_valid both_runs both_exact c2 t2]
  have m: "matched exampleRegex exampleTrim exampleDb alice foodOnly = [foodTx]"
    using F by (simp add: n f k food_trim)
  have m2: "matched exampleRegex exampleTrim exampleDb alice foodOrSalary = [salaryTx, foodTx]"
    using G by (simp add: n f k tr)
  have "dataOf (listTransactions exampleRegex exampleTrim exampleDb alice foodOnly) = [foodTx]"
    and "totalOf (listTransactions exampleRegex exampleTrim exampleDb alice foodOnly) = 1"
    using F by (simp_all add: m p)
  with m m2 c t food_valid food_runs food_exact show ?thesis by simp
qed

end
